theory Spec2Isabelle
  imports Complex_Main "HOL-Library.Sublist"
begin

section \<open>Conventions of the embedding\<close>

text \<open>
  The services under \<^verbatim>\<open>ml-services/services\<close> are Python. Floats are modelled as
  \<^typ>\<open>real\<close> (rounding, NaN and overflow are outside the model), Python integers as
  \<^typ>\<open>int\<close>. An exception is a value \<open>Inl e\<close> of a sum type. The constants of
  \<^verbatim>\<open>config.Settings\<close> are the defaults written in \<^verbatim>\<open>config.py\<close>.
\<close>

datatype py_error = ZeroDivisionError | ValueError

subsection \<open>config.py: the settings the scoring pipeline reads\<close>

definition recommendation_alpha_default :: real where
  "recommendation_alpha_default = 4 / 10"

definition alpha_sparse_collab_threshold :: real where
  "alpha_sparse_collab_threshold = 5 / 100"

definition alpha_sparse_collab_boost :: real where
  "alpha_sparse_collab_boost = 2 / 10"

definition alpha_new_user_threshold :: int where
  "alpha_new_user_threshold = 10"

definition alpha_new_user_boost :: real where
  "alpha_new_user_boost = 15 / 100"

definition decay_half_life_purchases :: real where
  "decay_half_life_purchases = 30"

definition decay_half_life_views :: real where
  "decay_half_life_views = 7"

definition decay_half_life_wishlist :: real where
  "decay_half_life_wishlist = 14"

definition diversity_max_per_category :: nat where
  "diversity_max_per_category = 3"

definition diversity_min_categories :: nat where
  "diversity_min_categories = 3"

definition session_boost_weight :: real where
  "session_boost_weight = 3 / 10"

definition category_affinity_top_n :: nat where
  "category_affinity_top_n = 5"

definition category_affinity_boost :: real where
  "category_affinity_boost = 4 / 10"

definition category_affinity_top_boost :: real where
  "category_affinity_top_boost = 3 / 10"

definition price_preference_boost :: real where
  "price_preference_boost = 15 / 100"

definition price_preference_penalty :: real where
  "price_preference_penalty = 1 / 10"

definition filter_signal_weight :: real where
  "filter_signal_weight = 3 / 10"

definition filter_min_samples :: nat where
  "filter_min_samples = 3"

definition filter_category_max_weight :: nat where
  "filter_category_max_weight = 5"

definition filter_category_affinity_weight :: real where
  "filter_category_affinity_weight = 15 / 10"

subsection \<open>Timestamps\<close>

text \<open>
  A timestamp field holds a \<^verbatim>\<open>datetime\<close> or an ISO string. \<open>Instant t\<close> is a value
  that denotes the instant \<open>t\<close>, in seconds on the UTC time line; \<open>Unparsable\<close> is any
  other truthy value (a malformed string, an object of another type). A field that is
  absent, \<^verbatim>\<open>None\<close> or the empty string is \<open>None\<close>: the three are falsy and are
  treated alike wherever the code reads a timestamp.
\<close>

datatype py_time = Unparsable | Instant real

text \<open>\<^verbatim>\<open>a or b\<close> on two optional fields.\<close>

definition py_or :: "'a option \<Rightarrow> 'a option \<Rightarrow> 'a option" where
  "py_or a b = (case a of Some x \<Rightarrow> Some x | None \<Rightarrow> b)"

subsection \<open>recommendation\_engine.py: alpha and time decay\<close>

definition calculate_adaptive_alpha :: "bool \<Rightarrow> int \<Rightarrow> real \<Rightarrow> real \<times> bool" where
  "calculate_adaptive_alpha has_personality_profile interaction_count collaborative_coverage =
     (if \<not> has_personality_profile then (0, True)
      else
        let alpha = recommendation_alpha_default;
            alpha = (if collaborative_coverage < alpha_sparse_collab_threshold
                     then alpha + alpha_sparse_collab_boost else alpha);
            alpha = (if interaction_count < alpha_new_user_threshold
                     then alpha + alpha_new_user_boost else alpha);
            alpha = max (1 / 10) (min (9 / 10) alpha)
        in (alpha, True))"

text \<open>
  \<^verbatim>\<open>0.5 ** (days_ago / half_life)\<close>. \<open>time_decay\<close> is the value computed;
  \<open>calculate_time_decay\<close> adds the ZeroDivisionError that Python raises when the
  division is reached with a zero half-life. The engine only passes the three non-zero
  half-lives of the settings, where the two agree.
\<close>

definition time_decay :: "real \<Rightarrow> real \<Rightarrow> real" where
  "time_decay days_ago half_life =
     (if days_ago < 0 then 1 else (1 / 2) powr (days_ago / half_life))"

definition calculate_time_decay :: "real \<Rightarrow> real \<Rightarrow> py_error + real" where
  "calculate_time_decay days_ago half_life =
     (if days_ago < 0 then Inr 1
      else if half_life = 0 then Inl ZeroDivisionError
      else Inr ((1 / 2) powr (days_ago / half_life)))"

text \<open>
  \<open>get_days_ago\<close> reads the clock (\<^verbatim>\<open>datetime.now(timezone.utc)\<close>); the reading is
  the explicit first argument, in seconds.

  Every call reads the clock anew, so one invocation of the engine takes many readings.
  A call is identified by the loop it stands in (\<open>clock_site\<close>) and the position, in
  the list that loop walks, of the record it ages; a \<open>clock\<close> gives each call its
  reading. Nothing is assumed of the readings (in a run they never decrease).
\<close>

datatype clock_site =
    AffinityPurchases | AffinityWishlist | AffinityViews | WishlistBoost | ViewBoost

type_synonym clock = "clock_site \<Rightarrow> nat \<Rightarrow> real"

text \<open>The clock that reads \<open>t\<close> at every call, for the examples.\<close>

definition clock_at :: "real \<Rightarrow> clock" where
  "clock_at t = (\<lambda>site i. t)"

definition get_days_ago :: "real \<Rightarrow> py_time option \<Rightarrow> real" where
  "get_days_ago now ts =
     (case ts of
        None \<Rightarrow> 0
      | Some Unparsable \<Rightarrow> 0
      | Some (Instant t) \<Rightarrow> max 0 ((now - t) / 86400))"

subsection \<open>personality\_classifier.py\<close>

datatype PersonalityType =
    ADVENTUROUS_PREMIUM | CAUTIOUS_VALUE_SEEKER | LOYAL_ENTHUSIAST | BARGAIN_HUNTER
  | QUALITY_FOCUSED | TREND_FOLLOWER | PRACTICAL_SHOPPER | IMPULSE_BUYER

text \<open>The five dimension names, the keys of the dimension dictionaries.\<close>

datatype dimension =
    price_sensitivity | exploration_tendency | sentiment_tendency
  | purchase_frequency | decision_speed

definition DIMENSION_WEIGHTS :: "(dimension \<times> real) list" where
  "DIMENSION_WEIGHTS =
     [(price_sensitivity, 25 / 100), (exploration_tendency, 20 / 100),
      (sentiment_tendency, 15 / 100), (purchase_frequency, 20 / 100),
      (decision_speed, 20 / 100)]"

fun profile_vector :: "real \<Rightarrow> real \<Rightarrow> real \<Rightarrow> real \<Rightarrow> real \<Rightarrow> dimension \<Rightarrow> real" where
  "profile_vector a b c d e price_sensitivity = a"
| "profile_vector a b c d e exploration_tendency = b"
| "profile_vector a b c d e sentiment_tendency = c"
| "profile_vector a b c d e purchase_frequency = d"
| "profile_vector a b c d e decision_speed = e"

text \<open>\<^verbatim>\<open>PERSONALITY_PROFILES\<close>, in the order of the dictionary literal.\<close>

definition PERSONALITY_PROFILES :: "(PersonalityType \<times> (dimension \<Rightarrow> real)) list" where
  "PERSONALITY_PROFILES =
     [(ADVENTUROUS_PREMIUM, profile_vector (2/10) (9/10) (7/10) (6/10) (8/10)),
      (CAUTIOUS_VALUE_SEEKER, profile_vector (9/10) (3/10) (5/10) (4/10) (2/10)),
      (LOYAL_ENTHUSIAST, profile_vector (4/10) (3/10) (8/10) (7/10) (6/10)),
      (BARGAIN_HUNTER, profile_vector 1 (7/10) (5/10) (5/10) (9/10)),
      (QUALITY_FOCUSED, profile_vector (3/10) (5/10) (6/10) (4/10) (3/10)),
      (TREND_FOLLOWER, profile_vector (5/10) (8/10) (7/10) (7/10) (7/10)),
      (PRACTICAL_SHOPPER, profile_vector (6/10) (4/10) (5/10) (3/10) (5/10)),
      (IMPULSE_BUYER, profile_vector (4/10) (9/10) (6/10) (8/10) 1)]"

text \<open>
  The inner loop of \<open>classify\<close>: the weighted sum of squares, then its square root.
  A dimension missing from the map reads as 0.5 (\<^verbatim>\<open>dimensions.get(dim_name, 0.5)\<close>).
\<close>

definition weighted_squares :: "(dimension \<rightharpoonup> real) \<Rightarrow> (dimension \<Rightarrow> real) \<Rightarrow> real" where
  "weighted_squares dimensions profile =
     foldl (\<lambda>distance (dim_name, weight).
              let user_value = (case dimensions dim_name of None \<Rightarrow> 1 / 2 | Some v \<Rightarrow> v);
                  profile_value = profile dim_name
              in distance + weight * \<bar>user_value - profile_value\<bar> ^ 2)
           0 DIMENSION_WEIGHTS"

definition profile_distance :: "(dimension \<rightharpoonup> real) \<Rightarrow> (dimension \<Rightarrow> real) \<Rightarrow> real" where
  "profile_distance dimensions profile = sqrt (weighted_squares dimensions profile)"

text \<open>
  The outer loop keeps \<open>(best_match, best_score)\<close>; \<open>best_score\<close> starts at
  \<^verbatim>\<open>float("inf")\<close>, written \<open>None\<close>, below which every distance lies.
\<close>

definition classify_step ::
  "(dimension \<rightharpoonup> real) \<Rightarrow> PersonalityType \<times> real option
     \<Rightarrow> PersonalityType \<times> (dimension \<Rightarrow> real) \<Rightarrow> PersonalityType \<times> real option" where
  "classify_step dimensions best entry =
     (let distance = profile_distance dimensions (snd entry)
      in if (case snd best of None \<Rightarrow> True | Some best_score \<Rightarrow> distance < best_score)
         then (fst entry, Some distance) else best)"

definition classify :: "(dimension \<rightharpoonup> real) \<Rightarrow> PersonalityType \<times> real" where
  "classify dimensions =
     (let best = foldl (classify_step dimensions) (PRACTICAL_SHOPPER, None) PERSONALITY_PROFILES
      in (fst best,
          (case snd best of
             None \<Rightarrow> 0
           | Some best_score \<Rightarrow> max 0 (min 1 (1 - best_score)))))"

text \<open>The canonical vector of an archetype, for stating results about \<open>classify\<close>.\<close>

definition canonical :: "PersonalityType \<Rightarrow> dimension \<Rightarrow> real" where
  "canonical t = (case map_of PERSONALITY_PROFILES t of Some p \<Rightarrow> p | None \<Rightarrow> (\<lambda>_. 0))"

text \<open>
  \<open>_calculate_purchase_frequency\<close> reads three keys of the statistics dictionary.
  Parsing a malformed string raises ValueError (there is no handler here, unlike in
  \<open>get_days_ago\<close>). \<^verbatim>\<open>(last - first).days\<close> is the floor of the difference in days.
  The two instants are taken to lie on one time line: a pair of a naive and an aware
  \<^verbatim>\<open>datetime\<close>, whose difference raises TypeError, is outside the model.
\<close>

record purchase_stats =
  first_purchase :: "py_time option"
  last_purchase :: "py_time option"
  total_orders :: "int option"

definition calculate_purchase_frequency :: "purchase_stats \<Rightarrow> py_error + real" where
  "calculate_purchase_frequency stats =
     (let n = (case total_orders stats of None \<Rightarrow> 0 | Some k \<Rightarrow> k)
      in case (first_purchase stats, last_purchase stats) of
           (None, _) \<Rightarrow> Inr (3 / 10)
         | (_, None) \<Rightarrow> Inr (3 / 10)
         | (Some f, Some l) \<Rightarrow>
             if n < 2 then Inr (3 / 10)
             else (case (f, l) of
                     (Instant t_first, Instant t_last) \<Rightarrow>
                       let total_days = \<lfloor>(t_last - t_first) / 86400\<rfloor>
                       in if total_days \<le> 0 then Inr (5 / 10)
                          else
                            let avg_days_between = real_of_int total_days / real_of_int (n - 1)
                            in if avg_days_between \<le> 7 then Inr 1
                               else if avg_days_between \<le> 14 then Inr (8 / 10)
                               else if avg_days_between \<le> 30 then Inr (6 / 10)
                               else if avg_days_between \<le> 60 then Inr (4 / 10)
                               else if avg_days_between \<le> 90 then Inr (2 / 10)
                               else Inr (1 / 10)
                   | _ \<Rightarrow> Inl ValueError))"

text \<open>
  The invariant of the loop of \<open>classify\<close>: once an archetype has been seen, the kept
  score is the least distance seen so far and is the distance of the kept archetype.
\<close>

definition best_of ::
  "(dimension \<rightharpoonup> real) \<Rightarrow> (PersonalityType \<times> (dimension \<Rightarrow> real)) list
     \<Rightarrow> PersonalityType \<times> real option \<Rightarrow> bool" where
  "best_of d seen b =
     (case snd b of
        None \<Rightarrow> seen = []
      | Some s \<Rightarrow> (\<exists>p. (fst b, p) \<in> set seen \<and> s = profile_distance d p) \<and>
                  (\<forall>e \<in> set seen. s \<le> profile_distance d (snd e)))"

text \<open>The dimensions of the classification example: the cautious value seeker's own vector.\<close>

definition cautious_example :: "dimension \<rightharpoonup> real" where
  "cautious_example =
     [price_sensitivity \<mapsto> 9 / 10, exploration_tendency \<mapsto> 3 / 10, sentiment_tendency \<mapsto> 5 / 10,
      purchase_frequency \<mapsto> 4 / 10, decision_speed \<mapsto> 2 / 10]"

subsection \<open>Dictionaries\<close>

text \<open>
  Purchases, wishlist entries, views, reviews, products and interactions all arrive as
  \<^verbatim>\<open>dict[str, Any]\<close>. A \<open>row\<close> has one optional field for each key the scoring
  pipeline reads, named after the key (\<open>id_key\<close> is the key \<^verbatim>\<open>"id"\<close>). \<open>None\<close> is a
  key that is absent or bound to \<^verbatim>\<open>None\<close>; a key that is present is taken to hold a
  value of the type the code expects. The field \<open>filter_context\<close> is
  \<^verbatim>\<open>metadata["filter_context"]\<close> when \<^verbatim>\<open>metadata\<close> is a dictionary and the
  context is a non-empty dictionary, and \<open>None\<close> otherwise. A list element can be
  \<^verbatim>\<open>None\<close>, so the lists are lists of \<open>row option\<close>. An optional list argument is a
  list, \<^verbatim>\<open>None\<close> being \<open>[]\<close>: each is read as \<^verbatim>\<open>x or []\<close> or under a truth test.

  The code tells an absent key from one bound to \<^verbatim>\<open>None\<close> in two places:
  \<^verbatim>\<open>product.get("id", product.get("product_id"))\<close> falls back to the second key only
  when the first is absent, and the diversity selector counts a \<^verbatim>\<open>category_id\<close>
  bound to \<^verbatim>\<open>None\<close> under a key of its own, beside category 0. The model reads such
  a key as absent, so a product whose \<^verbatim>\<open>"id"\<close> or \<^verbatim>\<open>"category_id"\<close> is bound to
  \<^verbatim>\<open>None\<close> is outside it.
\<close>

record filter_context =
  min_price :: "real option"
  max_price :: "real option"
  ctx_category_id :: "int option"

record row =
  id_key :: "int option"
  product_id :: "int option"
  category_id :: "int option"
  category_name :: "string option"
  name :: "string option"
  price :: "real option"
  product_price :: "real option"
  image_url :: "string option"
  is_new :: "bool option"
  is_on_sale :: "bool option"
  discount :: "real option"
  rating :: "real option"
  avg_rating :: "real option"
  popularity :: "real option"
  order_count :: "real option"
  score :: "real option"
  purchase_date :: "py_time option"
  ordered_at :: "py_time option"
  added_at :: "py_time option"
  created_at :: "py_time option"
  timestamp :: "py_time option"
  filter_context :: "filter_context option"

text \<open>The empty dictionary, from which examples are built by field updates.\<close>

definition empty_row :: row where
  "empty_row =
     \<lparr>id_key = None, product_id = None, category_id = None, category_name = None,
      name = None, price = None, product_price = None, image_url = None, is_new = None,
      is_on_sale = None, discount = None, rating = None, avg_rating = None,
      popularity = None, order_count = None, score = None, purchase_date = None,
      ordered_at = None, added_at = None, created_at = None, timestamp = None,
      filter_context = None\<rparr>"

text \<open>\<^verbatim>\<open>a or b\<close> on two optional numbers: zero is falsy as well.\<close>

definition num_or :: "real option \<Rightarrow> real option \<Rightarrow> real option" where
  "num_or a b = (case a of Some x \<Rightarrow> if x \<noteq> 0 then Some x else b | None \<Rightarrow> b)"

text \<open>
  A \<^verbatim>\<open>defaultdict\<close>, or a dictionary filled by assignment, keeps its keys in the
  order of their first insertion: an association list. \<open>alist_upd k f d\<close> is
  \<^verbatim>\<open>m[k] = f(m[k])\<close> with default \<open>d\<close> for a new key.
\<close>

fun alist_upd :: "'k \<Rightarrow> ('v \<Rightarrow> 'v) \<Rightarrow> 'v \<Rightarrow> ('k \<times> 'v) list \<Rightarrow> ('k \<times> 'v) list" where
  "alist_upd k f d [] = [(k, f d)]"
| "alist_upd k f d ((k', v) # m) =
     (if k = k' then (k', f v) # m else (k', v) # alist_upd k f d m)"

subsection \<open>filter\_analyzer.py\<close>

text \<open>
  \<open>extract_filter_interactions\<close> keeps the interactions that carry a filter context.
  The source pairs each context with its interaction; only the context is read later.
\<close>

fun extract_filter_interactions :: "row option list \<Rightarrow> filter_context list" where
  "extract_filter_interactions [] = []"
| "extract_filter_interactions (None # interactions) = extract_filter_interactions interactions"
| "extract_filter_interactions (Some interaction # interactions) =
     (case filter_context interaction of
        None \<Rightarrow> extract_filter_interactions interactions
      | Some ctx \<Rightarrow> ctx # extract_filter_interactions interactions)"

definition average :: "real list \<Rightarrow> real option" where
  "average xs = (if xs = [] then None else Some (sum_list xs / real (length xs)))"

definition extract_price_signals :: "row option list \<Rightarrow> real option \<times> real option" where
  "extract_price_signals interactions =
     (let filter_data = extract_filter_interactions interactions
      in if length filter_data < filter_min_samples then (None, None)
         else
           let min_prices = List.map_filter min_price filter_data;
               max_prices = List.map_filter max_price filter_data
           in (average min_prices, average max_prices))"

definition extract_category_signals :: "row option list \<Rightarrow> (int \<times> nat) list" where
  "extract_category_signals interactions =
     foldl (\<lambda>category_counts ctx.
              case ctx_category_id ctx of
                None \<Rightarrow> category_counts
              | Some c \<Rightarrow> if c \<noteq> 0 then alist_upd c Suc 0 category_counts else category_counts)
           [] (extract_filter_interactions interactions)"

text \<open>The signal of one filter context, if it sets a price bound.\<close>

definition sensitivity_of :: "filter_context \<Rightarrow> real option" where
  "sensitivity_of ctx =
     (case (min_price ctx, max_price ctx) of
        (Some min_val, Some max_val) \<Rightarrow>
          let range_width = max_val - min_val;
              normalized_width = min (range_width / 500) 1
          in Some (1 - normalized_width)
      | (None, Some max_val) \<Rightarrow>
          let sensitivity = 1 - min (max_val / 500) 1
          in Some (min (8 / 10) (sensitivity + 2 / 10))
      | (Some min_val, None) \<Rightarrow> Some (3 / 10)
      | (None, None) \<Rightarrow> None)"

definition calculate_price_sensitivity_signal :: "row option list \<Rightarrow> real option" where
  "calculate_price_sensitivity_signal interactions =
     (let filter_data = extract_filter_interactions interactions
      in if length filter_data < filter_min_samples then None
         else average (List.map_filter sensitivity_of filter_data))"

text \<open>\<open>max_weight\<close> is always left to its default, the setting.\<close>

definition calculate_filter_based_category_affinity :: "row option list \<Rightarrow> (int \<times> real) list" where
  "calculate_filter_based_category_affinity interactions =
     (let max_weight = filter_category_max_weight;
          category_counts = extract_category_signals interactions
      in case map snd category_counts of
           [] \<Rightarrow> []
         | n # ns \<Rightarrow>
             let max_count = fold max ns n;
                 capped_max = min max_count max_weight
             in map (\<lambda>(cat_id, count). (cat_id, real (min count max_weight) / real (max capped_max 1)))
                    category_counts)"

definition blend_price_ranges ::
  "real \<Rightarrow> real \<Rightarrow> real option \<Rightarrow> real option \<Rightarrow> real \<times> real" where
  "blend_price_ranges purchase_min purchase_max filter_min filter_max =
     (let filter_weight = filter_signal_weight;
          purchase_weight = 1 - filter_weight
      in if filter_min = None \<and> filter_max = None then (purchase_min, purchase_max)
         else
           (case filter_min of
              Some fmin \<Rightarrow> purchase_weight * purchase_min + filter_weight * fmin
            | None \<Rightarrow> purchase_min,
            case filter_max of
              Some fmax \<Rightarrow> purchase_weight * purchase_max + filter_weight * fmax
            | None \<Rightarrow> purchase_max))"

subsection \<open>recommendation\_engine.py: price preference\<close>

text \<open>
  \<^verbatim>\<open>numpy.percentile(a, q)\<close> with its default linear interpolation, on a non-empty
  array: the value at the fractional position \<open>q / 100 * (n - 1)\<close> of the sorted array.
  numpy is a library, not part of the repository; this is its documented behaviour.
\<close>

definition percentile :: "real list \<Rightarrow> real \<Rightarrow> real" where
  "percentile a q =
     (let s = sort a;
          n = length s;
          pos = q / 100 * real (n - 1);
          lo = nat \<lfloor>pos\<rfloor>;
          hi = min (lo + 1) (n - 1)
      in s ! lo + (pos - real lo) * (s ! hi - s ! lo))"

text \<open>The first loop of \<open>calculate_price_preference\<close>: the positive purchase prices.\<close>

fun purchase_prices :: "row option list \<Rightarrow> real list" where
  "purchase_prices [] = []"
| "purchase_prices (None # purchases) = purchase_prices purchases"
| "purchase_prices (Some p # purchases) =
     (case num_or (product_price p) (price p) of
        None \<Rightarrow> purchase_prices purchases
      | Some x \<Rightarrow> if x > 0 then x # purchase_prices purchases else purchase_prices purchases)"

text \<open>
  The preferred range is \<open>(preferred_min, preferred_max)\<close>; the maximum
  \<^verbatim>\<open>float("inf")\<close> of the unrestricted range is written \<open>None\<close>.
\<close>

definition calculate_price_preference ::
  "row option list \<Rightarrow> row option list \<Rightarrow> real \<times> real option" where
  "calculate_price_preference purchases interactions =
     (let prices = purchase_prices purchases
      in if length prices < 3 then (0, None)
         else
           let p25 = percentile prices 25;
               p75 = percentile prices 75;
               purchase_min = p25 * (8 / 10);
               purchase_max = p75 * (12 / 10)
           in if interactions \<noteq> [] then
                (case extract_price_signals interactions of
                   (filter_min, filter_max) \<Rightarrow>
                     if filter_min \<noteq> None \<or> filter_max \<noteq> None then
                       (case blend_price_ranges purchase_min purchase_max filter_min filter_max of
                          (blended_min, blended_max) \<Rightarrow> (blended_min, Some blended_max))
                     else (purchase_min, Some purchase_max))
              else (purchase_min, Some purchase_max))"

definition score_price_preference :: "real \<Rightarrow> real \<Rightarrow> real option \<Rightarrow> real" where
  "score_price_preference p preferred_min preferred_max =
     (case preferred_max of
        None \<Rightarrow> 0
      | Some pmax \<Rightarrow>
          if preferred_min \<le> p \<and> p \<le> pmax then price_preference_boost
          else if p < preferred_min * (5 / 10) \<or> p > pmax * 2 then - price_preference_penalty
          else 0)"

text \<open>Purchases at the given prices, for the examples.\<close>

definition purchases_at :: "real list \<Rightarrow> row option list" where
  "purchases_at xs = map (\<lambda>x. Some (empty_row\<lparr>product_price := Some x\<rparr>)) xs"

text \<open>An interaction log with a single filter selection, of category 7 and no price bound.\<close>

definition one_category_filter :: "row option list" where
  "one_category_filter =
     [Some (empty_row\<lparr>filter_context :=
        Some \<lparr>min_price = None, max_price = None, ctx_category_id = Some 7\<rparr>\<rparr>)]"

subsection \<open>recommendation\_engine.py: category affinity\<close>

text \<open>
  \<open>category_scores\<close> and \<open>total_weight\<close> are threaded as a pair. The loops over
  purchases, wishlist and views differ in the timestamp read, the multiplier and the
  half-life only, which are the parameters of \<open>affinity_pass\<close>.
\<close>

definition add_weight :: "int \<Rightarrow> real \<Rightarrow> (int \<times> real) list \<times> real \<Rightarrow> (int \<times> real) list \<times> real" where
  "add_weight cat_id weight st = (alist_upd cat_id (\<lambda>s. s + weight) 0 (fst st), snd st + weight)"

text \<open>
  The timestamp of a purchase, \<^verbatim>\<open>p.get("purchase_date") or p.get("ordered_at")\<close>, and of
  a view, \<^verbatim>\<open>v.get("created_at") or v.get("timestamp")\<close>.
\<close>

definition purchase_stamp :: "row \<Rightarrow> py_time option" where
  "purchase_stamp p = py_or (purchase_date p) (ordered_at p)"

definition view_stamp :: "row \<Rightarrow> py_time option" where
  "view_stamp v = py_or (created_at v) (timestamp v)"

text \<open>
  The body of such a loop, for the record at position \<open>fst ir\<close>, whose reading is
  \<open>readings (fst ir)\<close>.
\<close>

definition affinity_step ::
  "(nat \<Rightarrow> real) \<Rightarrow> (row \<Rightarrow> py_time option) \<Rightarrow> real \<Rightarrow> real
     \<Rightarrow> (int \<times> real) list \<times> real \<Rightarrow> nat \<times> row option \<Rightarrow> (int \<times> real) list \<times> real" where
  "affinity_step readings stamp multiplier half_life st ir =
     (case snd ir of
        None \<Rightarrow> st
      | Some p \<Rightarrow>
          (case category_id p of
             None \<Rightarrow> st
           | Some cat_id \<Rightarrow>
               if cat_id \<noteq> 0 then
                 let days_ago = get_days_ago (readings (fst ir)) (stamp p);
                     decay = time_decay days_ago half_life
                 in add_weight cat_id (multiplier * decay) st
               else st))"

definition affinity_pass ::
  "(nat \<Rightarrow> real) \<Rightarrow> (row \<Rightarrow> py_time option) \<Rightarrow> real \<Rightarrow> real \<Rightarrow> row option list
     \<Rightarrow> (int \<times> real) list \<times> real \<Rightarrow> (int \<times> real) list \<times> real" where
  "affinity_pass readings stamp multiplier half_life records st =
     foldl (affinity_step readings stamp multiplier half_life) st (enumerate 0 records)"

definition calculate_category_affinity ::
  "clock \<Rightarrow> row option list \<Rightarrow> row option list \<Rightarrow> row option list \<Rightarrow> row option list
     \<Rightarrow> (int \<times> real) list" where
  "calculate_category_affinity clk purchases views wishlist interactions =
     (let st = ([], 0);
          st = affinity_pass (clk AffinityPurchases) purchase_stamp 3
                 decay_half_life_purchases purchases st;
          st = affinity_pass (clk AffinityWishlist) added_at 2 decay_half_life_wishlist wishlist st;
          st = affinity_pass (clk AffinityViews) view_stamp 1 decay_half_life_views views st;
          st = (if interactions \<noteq> [] then
                  foldl (\<lambda>st (cat_id, affinity_score).
                           add_weight cat_id (filter_category_affinity_weight * affinity_score) st)
                        st (calculate_filter_based_category_affinity interactions)
                else st);
          category_scores = fst st;
          total_weight = snd st
      in if total_weight > 0 then
           let max_score = (case map snd category_scores of [] \<Rightarrow> 1 | v # vs \<Rightarrow> fold max vs v)
           in map (\<lambda>(cat_id, s). (cat_id, s / max_score)) category_scores
         else [])"

subsection \<open>recommendation\_engine.py: personality boost\<close>

definition opt_default :: "'a \<Rightarrow> 'a option \<Rightarrow> 'a" where
  "opt_default d x = (case x of None \<Rightarrow> d | Some v \<Rightarrow> v)"

text \<open>The score of one product under an archetype, before the cap at 1.\<close>

definition personality_rule :: "PersonalityType \<Rightarrow> row \<Rightarrow> real" where
  "personality_rule personality_type p =
     (let base = 5 / 10;
          pr = opt_default 0 (price p);
          new = opt_default False (is_new p);
          on_sale = opt_default (opt_default 0 (discount p) > 0) (is_on_sale p);
          rt = opt_default (opt_default (35 / 10) (avg_rating p)) (rating p);
          pop = opt_default (opt_default 0 (order_count p)) (popularity p)
      in case personality_type of
           ADVENTUROUS_PREMIUM \<Rightarrow>
             base + (if new then 3 / 10 else 0) + (if pr > 50 then 2 / 10 else 0)
         | CAUTIOUS_VALUE_SEEKER \<Rightarrow>
             base + (if rt \<ge> 4 then 3 / 10 else 0) + (if on_sale then 2 / 10 else 0)
         | BARGAIN_HUNTER \<Rightarrow>
             base + (if on_sale then 4 / 10 else 0) + (if pr < 30 then 2 / 10 else 0)
         | QUALITY_FOCUSED \<Rightarrow>
             base + (if rt \<ge> 45 / 10 then 4 / 10 else 0) + (if pr > 40 then 1 / 10 else 0)
         | TREND_FOLLOWER \<Rightarrow>
             base + (if pop \<noteq> 0 \<and> pop > 100 then 3 / 10 else 0) + (if new then 2 / 10 else 0)
         | IMPULSE_BUYER \<Rightarrow>
             base + (if new then 2 / 10 else 0) + (if on_sale then 2 / 10 else 0)
                  + (case image_url p of
                       None \<Rightarrow> 0
                     | Some u \<Rightarrow> if u \<noteq> [] then 1 / 10 else 0)
         | LOYAL_ENTHUSIAST \<Rightarrow> base + (if rt \<ge> 4 then 2 / 10 else 0)
         | PRACTICAL_SHOPPER \<Rightarrow> base + (if rt \<ge> 35 / 10 \<and> pr < 50 then 3 / 10 else 0))"

definition get_personality_product_boost ::
  "PersonalityType \<Rightarrow> row option list \<Rightarrow> (int \<times> real) list" where
  "get_personality_product_boost personality_type products =
     foldl (\<lambda>boost_scores r.
              case r of
                None \<Rightarrow> boost_scores
              | Some p \<Rightarrow>
                  (case py_or (id_key p) (product_id p) of
                     None \<Rightarrow> boost_scores
                   | Some pid \<Rightarrow>
                       if pid = 0 then boost_scores
                       else alist_upd pid (\<lambda>_. min (personality_rule personality_type p) 1) 0
                              boost_scores))
           [] products"

text \<open>\<^verbatim>\<open>personality_type.value.replace("_", " ")\<close>.\<close>

fun personality_label :: "PersonalityType \<Rightarrow> string" where
  "personality_label ADVENTUROUS_PREMIUM = ''adventurous premium''"
| "personality_label CAUTIOUS_VALUE_SEEKER = ''cautious value seeker''"
| "personality_label LOYAL_ENTHUSIAST = ''loyal enthusiast''"
| "personality_label BARGAIN_HUNTER = ''bargain hunter''"
| "personality_label QUALITY_FOCUSED = ''quality focused''"
| "personality_label TREND_FOLLOWER = ''trend follower''"
| "personality_label PRACTICAL_SHOPPER = ''practical shopper''"
| "personality_label IMPULSE_BUYER = ''impulse buyer''"

subsection \<open>recommendation\_engine.py: the diversity selector\<close>

text \<open>
  The values of \<open>product_scores\<close> and the items returned. \<open>entry_score\<close> is the key
  \<^verbatim>\<open>"score"\<close>; the fields of \<^verbatim>\<open>RecommendationItem\<close> carry the prefix \<open>item_\<close>.
\<close>

record entry =
  entry_score :: real
  behavioral_score :: real
  personality_score :: real
  reasons :: "string list"
  product :: "row option"
  primary_reason :: "string option"

record RecommendationItem =
  item_product_id :: int
  item_name :: string
  item_score :: real
  item_reason :: string
  item_category_id :: "int option"
  item_category_name :: "string option"
  item_price :: "real option"
  item_image_url :: "string option"

text \<open>\<^verbatim>\<open>str(n)\<close> for the default name \<^verbatim>\<open>f"Product {product_id}"\<close>.\<close>

fun str_of_nat :: "nat \<Rightarrow> string" where
  "str_of_nat n =
     (if n < 10 then [''0123456789'' ! n]
      else str_of_nat (n div 10) @ [''0123456789'' ! (n mod 10)])"

declare str_of_nat.simps [simp del]

definition str_of_int :: "int \<Rightarrow> string" where
  "str_of_int i = (if i < 0 then CHR ''-'' # str_of_nat (nat (- i)) else str_of_nat (nat i))"

text \<open>
  \<^verbatim>\<open>product.get("category_id", 0) if product else 0\<close>, where \<^verbatim>\<open>product\<close> is
  \<^verbatim>\<open>data.get("product") or {}\<close>. A \<^verbatim>\<open>category_id\<close> bound to \<^verbatim>\<open>None\<close> is read
  as an absent one here.
\<close>

definition category_of :: "entry \<Rightarrow> int" where
  "category_of data =
     (case product data of
        None \<Rightarrow> 0
      | Some p \<Rightarrow> opt_default 0 (category_id p))"

definition make_item :: "int \<Rightarrow> entry \<Rightarrow> RecommendationItem" where
  "make_item pid data =
     (let p = opt_default empty_row (product data);
          cat = category_of data
      in \<lparr>item_product_id = pid,
          item_name = opt_default (''Product '' @ str_of_int pid) (name p),
          item_score = min (max (entry_score data) 0) 1,
          item_reason = (case reasons data of [] \<Rightarrow> ''Recommended for you'' | r # _ \<Rightarrow> r),
          item_category_id = (if cat \<noteq> 0 then Some cat else None),
          item_category_name = category_name p,
          item_price = (case price p of None \<Rightarrow> None | Some x \<Rightarrow> if x \<noteq> 0 then Some x else None),
          item_image_url = image_url p\<rparr>)"

text \<open>
  The state of the selector. \<open>selected_categories\<close> is the set of the source, kept as
  the list of its elements in the order they were added, so that its size is a length.
\<close>

record diversity_state =
  category_counts :: "int \<Rightarrow> nat"
  recommendations :: "RecommendationItem list"
  selected_categories :: "int list"
  skipped_for_diversity :: "(int \<times> entry) list"

definition add_category :: "int \<Rightarrow> int list \<Rightarrow> int list" where
  "add_category c cs = (if c \<in> set cs then cs else cs @ [c])"

fun first_pass :: "int \<Rightarrow> (int \<times> entry) list \<Rightarrow> diversity_state \<Rightarrow> diversity_state" where
  "first_pass limit [] st = st"
| "first_pass limit ((pid, data) # sorted_products) st =
     (if int (length (recommendations st)) \<ge> limit then st
      else
        let cat = category_of data
        in if category_counts st cat \<ge> diversity_max_per_category then
             first_pass limit sorted_products
               (st\<lparr>skipped_for_diversity := skipped_for_diversity st @ [(pid, data)]\<rparr>)
           else
             first_pass limit sorted_products
               (st\<lparr>category_counts := (category_counts st)(cat := category_counts st cat + 1),
                   selected_categories := add_category cat (selected_categories st),
                   recommendations := recommendations st @ [make_item pid data]\<rparr>))"

fun second_pass :: "int \<Rightarrow> (int \<times> entry) list \<Rightarrow> diversity_state \<Rightarrow> diversity_state" where
  "second_pass limit [] st = st"
| "second_pass limit ((pid, data) # skipped) st =
     (if int (length (recommendations st)) \<ge> limit then st
      else
        let cat = category_of data
        in if cat \<notin> set (selected_categories st) then
             second_pass limit skipped
               (st\<lparr>selected_categories := add_category cat (selected_categories st),
                   category_counts := (category_counts st)(cat := category_counts st cat + 1),
                   recommendations := recommendations st @ [make_item pid data]\<rparr>)
           else second_pass limit skipped st)"

definition initial_state :: diversity_state where
  "initial_state =
     \<lparr>category_counts = (\<lambda>_. 0), recommendations = [], selected_categories = [],
      skipped_for_diversity = []\<rparr>"

definition apply_diversity :: "(int \<times> entry) list \<Rightarrow> int \<Rightarrow> RecommendationItem list" where
  "apply_diversity sorted_products limit =
     (let st = first_pass limit sorted_products initial_state;
          st = (if length (selected_categories st) < diversity_min_categories
                   \<and> int (length (recommendations st)) < limit
                then second_pass limit (skipped_for_diversity st) st
                else st)
      in recommendations st)"

subsection \<open>recommendation\_engine.py: get\_recommendations\<close>

text \<open>
  The arguments of \<open>get_recommendations\<close>. \<open>collaborative_scores\<close> is a dictionary,
  an association list with distinct keys. The profile's \<^verbatim>\<open>personality_type\<close> is
  stored by the classifier as one of the eight enum values, which is what
  \<^verbatim>\<open>PersonalityType(...)\<close> accepts. Logging is not modelled, and \<open>user_id\<close> is
  read by the logger only.
\<close>

record profile =
  personality_type :: "PersonalityType option"

record args =
  user_id :: int
  limit :: int
  user_profile :: "profile option"
  purchased_product_ids :: "int list"
  wishlist_ids :: "int list"
  viewed_ids :: "int list"
  reviews :: "row option list"
  collaborative_scores :: "(int \<times> real) list"
  content_similar :: "row option list"
  popular_products :: "row option list"
  all_products :: "row option list"
  purchases :: "row option list"
  wishlist :: "row option list"
  views :: "row option list"
  negative_feedback_ids :: "int list"
  session_product_ids :: "int list"
  session_products :: "row option list"
  alpha :: "real option"
  all_interactions :: "row option list"

definition default_entry :: entry where
  "default_entry =
     \<lparr>entry_score = 0, behavioral_score = 0, personality_score = 0, reasons = [],
      product = None, primary_reason = None\<rparr>"

text \<open>\<^verbatim>\<open>product_scores[k]\<close> read and written through the \<^verbatim>\<open>defaultdict\<close>.\<close>

definition touch :: "int \<Rightarrow> (entry \<Rightarrow> entry) \<Rightarrow> (int \<times> entry) list \<Rightarrow> (int \<times> entry) list" where
  "touch k f product_scores = alist_upd k f default_entry product_scores"

text \<open>
  The guard every loop repeats:
  \<^verbatim>\<open>if product_id and product_id not in purchased_ids and product_id not in negative_ids\<close>,
  around a body \<open>f\<close> that receives the product id.
\<close>

definition when_eligible ::
  "int set \<Rightarrow> int set \<Rightarrow> int option \<Rightarrow> (int \<Rightarrow> 's \<Rightarrow> 's) \<Rightarrow> 's \<Rightarrow> 's" where
  "when_eligible purchased_ids negative_ids pid f s =
     (case pid of
        None \<Rightarrow> s
      | Some k \<Rightarrow> if k \<noteq> 0 \<and> k \<notin> purchased_ids \<and> k \<notin> negative_ids then f k s else s)"

text \<open>A loop over a list of dictionaries that skips the \<^verbatim>\<open>None\<close> elements.\<close>

definition for_rows :: "('s \<Rightarrow> row \<Rightarrow> 's) \<Rightarrow> 's \<Rightarrow> row option list \<Rightarrow> 's" where
  "for_rows body s rows = foldl (\<lambda>s r. case r of None \<Rightarrow> s | Some p \<Rightarrow> body s p) s rows"

text \<open>The product ids a user rated 2 or lower (\<^verbatim>\<open>None\<close> when the review has no id).\<close>

definition negative_reviewed_of :: "row option list \<Rightarrow> int option set" where
  "negative_reviewed_of rs =
     set (List.map_filter
            (\<lambda>r. case r of
                    None \<Rightarrow> None
                  | Some review \<Rightarrow>
                      let rt = opt_default 3 (rating review)
                      in if rt \<ge> 4 then None
                         else if rt \<le> 2 then Some (product_id review) else None)
            rs)"

text \<open>The body of the cold-start loop, for the product at rank \<open>i\<close>.\<close>

definition popular_step ::
  "int set \<Rightarrow> int set \<Rightarrow> (int \<times> entry) list \<Rightarrow> nat \<times> row option \<Rightarrow> (int \<times> entry) list" where
  "popular_step purchased_ids negative_ids ps ir =
     (case snd ir of
        None \<Rightarrow> ps
      | Some p \<Rightarrow>
          when_eligible purchased_ids negative_ids (py_or (id_key p) (product_id p))
            (\<lambda>pid. let sc = 1 - real (fst ir) * (5 / 100)
                   in touch pid (\<lambda>_. \<lparr>entry_score = sc, behavioral_score = sc,
                                       personality_score = 0, reasons = [''Bestseller''],
                                       product = Some p,
                                       primary_reason = Some ''popular''\<rparr>))
            ps)"

definition popular_scores ::
  "int set \<Rightarrow> int set \<Rightarrow> row option list \<Rightarrow> (int \<times> entry) list \<Rightarrow> (int \<times> entry) list" where
  "popular_scores purchased_ids negative_ids popular product_scores =
     foldl (popular_step purchased_ids negative_ids) product_scores (enumerate 0 popular)"

definition collaborative_component ::
  "int set \<Rightarrow> int set \<Rightarrow> (int \<times> real) list \<Rightarrow> real \<Rightarrow> (int \<times> entry) list \<Rightarrow> (int \<times> entry) list" where
  "collaborative_component purchased_ids negative_ids collab alpha_used product_scores =
     (if collab \<noteq> [] \<and> alpha_used < 1 then
        foldl (\<lambda>ps (pid, collab_score).
                 when_eligible purchased_ids negative_ids (Some pid)
                   (\<lambda>pid. touch pid
                      (\<lambda>e. e\<lparr>behavioral_score := behavioral_score e + collab_score,
                              reasons := reasons e @ [''Based on similar users'']\<rparr>))
                   ps)
              product_scores collab
      else product_scores)"

definition content_component ::
  "int set \<Rightarrow> int set \<Rightarrow> row option list \<Rightarrow> real \<Rightarrow> (int \<times> entry) list \<Rightarrow> (int \<times> entry) list" where
  "content_component purchased_ids negative_ids content alpha_used product_scores =
     (if content \<noteq> [] \<and> alpha_used < 1 then
        foldl (\<lambda>ps (i, r).
                 case r of
                   None \<Rightarrow> ps
                 | Some p \<Rightarrow>
                     when_eligible purchased_ids negative_ids (py_or (product_id p) (id_key p))
                       (\<lambda>pid. let content_score = opt_default (1 - real i * (1 / 10)) (score p)
                              in touch pid
                                   (\<lambda>e. e\<lparr>behavioral_score := behavioral_score e + content_score,
                                           reasons := reasons e @ [''Similar to items you've viewed''],
                                           product := (case product e of None \<Rightarrow> Some p
                                                       | Some q \<Rightarrow> Some q)\<rparr>))
                       ps)
              product_scores (enumerate 0 content)
      else product_scores)"

definition personality_component ::
  "int set \<Rightarrow> int set \<Rightarrow> profile option \<Rightarrow> row option list \<Rightarrow> real
     \<Rightarrow> (int \<times> entry) list \<Rightarrow> (int \<times> entry) list" where
  "personality_component purchased_ids negative_ids prof products alpha_used product_scores =
     (case (case prof of None \<Rightarrow> None | Some pr \<Rightarrow> personality_type pr) of
        None \<Rightarrow> product_scores
      | Some ptype \<Rightarrow>
          if alpha_used > 0 then
            foldl (\<lambda>ps (pid, boost_score).
                     if pid \<notin> purchased_ids \<and> pid \<notin> negative_ids then
                       touch pid
                         (\<lambda>e. e\<lparr>personality_score := personality_score e + boost_score,
                                 reasons := reasons e
                                   @ [''Matches your '' @ personality_label ptype @ '' style''],
                                 primary_reason := (case primary_reason e of
                                                      None \<Rightarrow> Some ''personality''
                                                    | Some q \<Rightarrow> Some q)\<rparr>)
                         ps
                     else ps)
                  product_scores (get_personality_product_boost ptype products)
          else product_scores)"

text \<open>
  The blending loop. The test on \<open>content_similar\<close> skips falsy elements; an empty
  dictionary has no id, so skipping the \<^verbatim>\<open>None\<close> elements is the same.
\<close>

definition alpha_blend ::
  "(int \<times> real) list \<Rightarrow> row option list \<Rightarrow> real \<Rightarrow> (int \<times> entry) list \<Rightarrow> (int \<times> entry) list" where
  "alpha_blend collab content alpha_used product_scores =
     map (\<lambda>(pid, data).
            let behavioral = behavioral_score data;
                personality = personality_score data;
                behavioral_count =
                  (if collab \<noteq> [] \<and> pid \<in> fst ` set collab then 1 else 0 :: nat)
                  + (if list_ex (\<lambda>r. case r of None \<Rightarrow> False
                                     | Some p \<Rightarrow> py_or (product_id p) (id_key p) = Some pid) content
                     then 1 else 0);
                behavioral = (if behavioral_count > 1 then behavioral / real behavioral_count
                              else behavioral)
            in (pid, data\<lparr>entry_score := alpha_used * personality + (1 - alpha_used) * behavioral\<rparr>))
         product_scores"

text \<open>
  The body of the loop over the timestamped wishlist, for the entry at position
  \<open>fst iw\<close>.
\<close>

definition wishlist_step ::
  "(nat \<Rightarrow> real) \<Rightarrow> int set \<Rightarrow> int set \<Rightarrow> (int \<times> entry) list \<Rightarrow> nat \<times> row option
     \<Rightarrow> (int \<times> entry) list" where
  "wishlist_step readings purchased_ids negative_ids ps iw =
     (case snd iw of
        None \<Rightarrow> ps
      | Some w \<Rightarrow>
          when_eligible purchased_ids negative_ids (product_id w)
            (\<lambda>pid. let days_ago = get_days_ago (readings (fst iw)) (added_at w);
                       decay = time_decay days_ago decay_half_life_wishlist
                   in touch pid
                        (\<lambda>e. e\<lparr>entry_score := entry_score e + 4 / 10 * decay,
                                reasons := reasons e @ [''From your wishlist''],
                                primary_reason := Some ''wishlist''\<rparr>))
            ps)"

definition wishlist_boost ::
  "(nat \<Rightarrow> real) \<Rightarrow> int set \<Rightarrow> int set \<Rightarrow> row option list \<Rightarrow> int list \<Rightarrow> row option list
     \<Rightarrow> (int \<times> entry) list \<Rightarrow> (int \<times> entry) list" where
  "wishlist_boost readings purchased_ids negative_ids wl wl_ids products product_scores =
     (if wl \<noteq> [] then
        foldl (wishlist_step readings purchased_ids negative_ids) product_scores (enumerate 0 wl)
      else if wl_ids \<noteq> [] \<and> products \<noteq> [] then
        for_rows (\<lambda>ps p.
            when_eligible purchased_ids negative_ids (py_or (id_key p) (product_id p))
              (\<lambda>pid ps.
                 if pid \<in> set wl_ids then
                   touch pid
                     (\<lambda>e. e\<lparr>entry_score := entry_score e + 4 / 10,
                             reasons := reasons e @ [''From your wishlist''],
                             primary_reason := Some ''wishlist'',
                             product := (case product e of None \<Rightarrow> Some p | Some q \<Rightarrow> Some q)\<rparr>)
                     ps
                 else ps)
              ps)
          product_scores products
      else product_scores)"

text \<open>
  The view boost first collects, per product, the largest decay among its views
  (\<open>viewed_products_decay\<close>), then applies the boost once per product.
\<close>

definition view_decay_step ::
  "(nat \<Rightarrow> real) \<Rightarrow> int set \<Rightarrow> int set \<Rightarrow> int option set \<Rightarrow> (int \<times> real) list
     \<Rightarrow> nat \<times> row option \<Rightarrow> (int \<times> real) list" where
  "view_decay_step readings purchased_ids negative_ids negative_reviewed vpd iv =
     (case snd iv of
        None \<Rightarrow> vpd
      | Some v \<Rightarrow>
          when_eligible purchased_ids negative_ids (product_id v)
            (\<lambda>pid vpd.
               if Some pid \<notin> negative_reviewed then
                 let days_ago = get_days_ago (readings (fst iv)) (view_stamp v);
                     decay = time_decay days_ago decay_half_life_views
                 in alist_upd pid (\<lambda>old. if decay > old then decay else old) decay vpd
               else vpd)
            vpd)"

definition viewed_products_decay ::
  "(nat \<Rightarrow> real) \<Rightarrow> int set \<Rightarrow> int set \<Rightarrow> int option set \<Rightarrow> row option list
     \<Rightarrow> (int \<times> real) list" where
  "viewed_products_decay readings purchased_ids negative_ids negative_reviewed vs =
     foldl (view_decay_step readings purchased_ids negative_ids negative_reviewed) []
       (enumerate 0 vs)"

definition viewed_boost ::
  "(nat \<Rightarrow> real) \<Rightarrow> int set \<Rightarrow> int set \<Rightarrow> int option set \<Rightarrow> row option list \<Rightarrow> int list
     \<Rightarrow> row option list \<Rightarrow> (int \<times> entry) list \<Rightarrow> (int \<times> entry) list" where
  "viewed_boost readings purchased_ids negative_ids negative_reviewed vs v_ids products product_scores =
     (if vs \<noteq> [] then
        foldl (\<lambda>ps (pid, decay).
                 touch pid
                   (\<lambda>e. e\<lparr>entry_score := entry_score e + 2 / 10 * decay,
                           reasons := reasons e @ [''You viewed this recently'']\<rparr>)
                   ps)
              product_scores
              (viewed_products_decay readings purchased_ids negative_ids negative_reviewed vs)
      else if v_ids \<noteq> [] \<and> products \<noteq> [] then
        for_rows (\<lambda>ps p.
            when_eligible purchased_ids negative_ids (py_or (id_key p) (product_id p))
              (\<lambda>pid ps.
                 if pid \<in> set v_ids \<and> Some pid \<notin> negative_reviewed then
                   touch pid
                     (\<lambda>e. e\<lparr>entry_score := entry_score e + 2 / 10,
                             reasons := reasons e @ [''You viewed this recently''],
                             product := (case product e of None \<Rightarrow> Some p | Some q \<Rightarrow> Some q)\<rparr>)
                     ps
                 else ps)
              ps)
          product_scores products
      else product_scores)"

definition session_categories_of ::
  "int set \<Rightarrow> row option list \<Rightarrow> row option list \<Rightarrow> int option set" where
  "session_categories_of session_ids sess_products products =
     (if sess_products \<noteq> [] then
        for_rows (\<lambda>cats sp.
            case category_id sp of
              None \<Rightarrow> cats
            | Some c \<Rightarrow> if c \<noteq> 0 then insert (Some c) cats else cats)
          {} sess_products
      else
        for_rows (\<lambda>cats sp.
            case py_or (id_key sp) (product_id sp) of
              None \<Rightarrow> cats
            | Some sp_id \<Rightarrow> if sp_id \<in> session_ids then insert (category_id sp) cats else cats)
          {} products)"

definition session_boost ::
  "int set \<Rightarrow> int set \<Rightarrow> int set \<Rightarrow> row option list \<Rightarrow> row option list
     \<Rightarrow> (int \<times> entry) list \<Rightarrow> (int \<times> entry) list" where
  "session_boost purchased_ids negative_ids session_ids sess_products products product_scores =
     (if session_ids \<noteq> {} \<and> products \<noteq> [] then
        let session_categories = session_categories_of session_ids sess_products products
        in for_rows (\<lambda>ps p.
               when_eligible purchased_ids negative_ids (py_or (id_key p) (product_id p))
                 (\<lambda>pid ps.
                    if pid \<notin> session_ids \<and> category_id p \<in> session_categories then
                      touch pid
                        (\<lambda>e. e\<lparr>entry_score := entry_score e + session_boost_weight,
                                reasons := reasons e @ [''Related to your recent browsing'']\<rparr>)
                        ps
                    else ps)
                 ps)
             product_scores products
      else product_scores)"

text \<open>
  \<^verbatim>\<open>category_names\<close> maps a category id to the name carried by the last product of
  that category; a name that is \<^verbatim>\<open>None\<close> is formatted as the text \<^verbatim>\<open>None\<close>.
\<close>

definition category_names_of :: "row option list \<Rightarrow> int \<rightharpoonup> string option" where
  "category_names_of products =
     for_rows (\<lambda>m p.
         case category_id p of
           None \<Rightarrow> m
         | Some c \<Rightarrow> if c \<noteq> 0 then m(c \<mapsto> category_name p) else m)
       Map.empty products"

definition category_boost ::
  "int set \<Rightarrow> int set \<Rightarrow> (int \<times> real) list \<Rightarrow> int set \<Rightarrow> int option \<Rightarrow> row option list
     \<Rightarrow> (int \<times> entry) list \<Rightarrow> (int \<times> entry) list" where
  "category_boost purchased_ids negative_ids category_affinity top_category_ids top_category_id
     products product_scores =
     (if category_affinity \<noteq> [] \<and> products \<noteq> [] then
        let category_names = category_names_of products
        in for_rows (\<lambda>ps p.
               when_eligible purchased_ids negative_ids (py_or (id_key p) (product_id p))
                 (\<lambda>pid ps.
                    case category_id p of
                      None \<Rightarrow> ps
                    | Some cat \<Rightarrow>
                        if cat \<noteq> 0 \<and> cat \<in> top_category_ids then
                          let cname = (case category_names cat of
                                         None \<Rightarrow> ''your favorites''
                                       | Some None \<Rightarrow> ''None''
                                       | Some (Some n) \<Rightarrow> n)
                          in touch pid
                               (\<lambda>e. e\<lparr>entry_score :=
                                         entry_score e + category_affinity_boost
                                         + (if Some cat = top_category_id
                                            then category_affinity_top_boost else 0),
                                       reasons := (''Popular in '' @ cname) # reasons e,
                                       primary_reason := Some ''category_affinity''\<rparr>)
                               ps
                        else ps)
                 ps)
             product_scores products
      else product_scores)"

definition price_scoring ::
  "int set \<Rightarrow> int set \<Rightarrow> real \<Rightarrow> real option \<Rightarrow> row option list
     \<Rightarrow> (int \<times> entry) list \<Rightarrow> (int \<times> entry) list" where
  "price_scoring purchased_ids negative_ids price_min price_max products product_scores =
     (if price_max \<noteq> None \<and> products \<noteq> [] then
        for_rows (\<lambda>ps p.
            when_eligible purchased_ids negative_ids (py_or (id_key p) (product_id p))
              (\<lambda>pid ps.
                 case price p of
                   None \<Rightarrow> ps
                 | Some x \<Rightarrow>
                     if x \<noteq> 0 then
                       let price_score = score_price_preference x price_min price_max
                       in if price_score \<noteq> 0 then
                            touch pid
                              (\<lambda>e. e\<lparr>entry_score := entry_score e + price_score,
                                      reasons := (if price_score > 0
                                                  then reasons e @ [''Within your preferred price range'']
                                                  else reasons e)\<rparr>)
                              ps
                          else ps
                     else ps)
              ps)
          product_scores products
      else product_scores)"

text \<open>
  The penalty loop runs over the set \<open>negative_reviewed\<close> and lowers each entry it finds
  once; the order in which the set is walked does not matter.
\<close>

definition review_penalty :: "int option set \<Rightarrow> (int \<times> entry) list \<Rightarrow> (int \<times> entry) list" where
  "review_penalty negative_reviewed product_scores =
     map (\<lambda>(pid, data).
            if Some pid \<in> negative_reviewed
            then (pid, data\<lparr>entry_score := entry_score data - 5 / 10\<rparr>)
            else (pid, data))
         product_scores"

definition product_map_of :: "row option list \<Rightarrow> int \<rightharpoonup> row" where
  "product_map_of products =
     for_rows (\<lambda>m p.
         case py_or (id_key p) (product_id p) of
           None \<Rightarrow> m
         | Some pid \<Rightarrow> if pid \<noteq> 0 then m(pid \<mapsto> p) else m)
       Map.empty products"

definition merge_products :: "row option list \<Rightarrow> (int \<times> entry) list \<Rightarrow> (int \<times> entry) list" where
  "merge_products products product_scores =
     (if products \<noteq> [] then
        let product_map = product_map_of products
        in map (\<lambda>(pid, data).
                  case product data of
                    None \<Rightarrow> (pid, data\<lparr>product := product_map pid\<rparr>)
                  | Some q \<Rightarrow> (pid, data))
               product_scores
      else product_scores)"

text \<open>
  \<^verbatim>\<open>sorted(..., key=score, reverse=True)\<close> is stable: entries of equal score keep
  their order, as \<open>sort_key\<close> on the negated score does.
\<close>

definition sort_by_score :: "(int \<times> entry) list \<Rightarrow> (int \<times> entry) list" where
  "sort_by_score product_scores = sort_key (\<lambda>(pid, data). - entry_score data) product_scores"

text \<open>
  The table \<open>product_scores\<close> that \<open>get_recommendations\<close> builds, and the function
  itself. The clock \<open>clk\<close>, which gives every call of \<open>get_days_ago\<close> its reading, is
  the first argument.
\<close>

definition alpha_of :: "args \<Rightarrow> real \<times> bool" where
  "alpha_of a =
     (case alpha a of
        Some x \<Rightarrow> (max 0 (min 1 x), False)
      | None \<Rightarrow>
          let has_personality =
                (case user_profile a of None \<Rightarrow> False | Some pr \<Rightarrow> personality_type pr \<noteq> None);
              interaction_count =
                int (length (remdups (purchased_product_ids a)))
                + int (length (remdups (wishlist_ids a)))
                + int (length (remdups (viewed_ids a)));
              total_products = length (all_products a);
              collab_coverage =
                real (length (collaborative_scores a)) / real (max total_products 1)
          in calculate_adaptive_alpha has_personality interaction_count collab_coverage)"

definition cold_start :: "args \<Rightarrow> bool" where
  "cold_start a \<longleftrightarrow>
     collaborative_scores a = [] \<and> content_similar a = [] \<and>
     \<not> (wishlist_ids a \<noteq> [] \<or> viewed_ids a \<noteq> [] \<or> purchased_product_ids a \<noteq> [])"

definition build_scores :: "clock \<Rightarrow> args \<Rightarrow> (int \<times> entry) list" where
  "build_scores clk a =
     (let purchased_ids = set (purchased_product_ids a);
          negative_ids = set (negative_feedback_ids a);
          session_ids = set (session_product_ids a);
          negative_reviewed = negative_reviewed_of (reviews a);
          alpha_used = fst (alpha_of a);
          category_affinity =
            (if purchases a \<noteq> [] \<or> wishlist a \<noteq> [] \<or> views a \<noteq> []
             then calculate_category_affinity clk (purchases a) (views a) (wishlist a)
                    (all_interactions a)
             else []);
          price_range = calculate_price_preference (purchases a) (all_interactions a);
          top_categories =
            take category_affinity_top_n (sort_key (\<lambda>(cat_id, s). - s) category_affinity);
          top_category_ids = fst ` set top_categories;
          top_category_id = (case top_categories of [] \<Rightarrow> None | (c, _) # _ \<Rightarrow> Some c)
      in if cold_start a then
           popular_scores purchased_ids negative_ids (popular_products a) []
         else
           (review_penalty negative_reviewed
             (price_scoring purchased_ids negative_ids (fst price_range) (snd price_range)
                 (all_products a)
               (category_boost purchased_ids negative_ids category_affinity top_category_ids
                   top_category_id (all_products a)
                 (session_boost purchased_ids negative_ids session_ids (session_products a)
                     (all_products a)
                   (viewed_boost (clk ViewBoost) purchased_ids negative_ids negative_reviewed
                       (views a)
                       (viewed_ids a) (all_products a)
                     (wishlist_boost (clk WishlistBoost) purchased_ids negative_ids (wishlist a)
                         (wishlist_ids a)
                         (all_products a)
                       (alpha_blend (collaborative_scores a) (content_similar a) alpha_used
                         (personality_component purchased_ids negative_ids (user_profile a)
                             (all_products a) alpha_used
                           (content_component purchased_ids negative_ids (content_similar a)
                               alpha_used
                             (collaborative_component purchased_ids negative_ids
                                (collaborative_scores a) alpha_used [])))))))))))"

definition get_recommendations ::
  "clock \<Rightarrow> args \<Rightarrow> RecommendationItem list \<times> string \<times> real \<times> bool" where
  "get_recommendations clk a =
     (let strategy = (if cold_start a then ''popular'' else ''hybrid'');
          product_scores = merge_products (all_products a) (build_scores clk a);
          sorted_products = sort_by_score product_scores;
          recommendations = apply_diversity sorted_products (limit a)
      in (recommendations, strategy, fst (alpha_of a), snd (alpha_of a)))"

text \<open>Arguments with every list empty and no profile, from which examples are built.\<close>

definition no_args :: args where
  "no_args =
     \<lparr>user_id = 1, limit = 10, user_profile = None, purchased_product_ids = [],
      wishlist_ids = [], viewed_ids = [], reviews = [], collaborative_scores = [],
      content_similar = [], popular_products = [], all_products = [], purchases = [],
      wishlist = [], views = [], negative_feedback_ids = [], session_product_ids = [],
      session_products = [], alpha = None, all_interactions = []\<rparr>"

text \<open>A product dictionary with an id and a category.\<close>

definition product_in :: "int \<Rightarrow> int \<Rightarrow> row" where
  "product_in pid cat = empty_row\<lparr>id_key := Some pid, category_id := Some cat\<rparr>"

subsection \<open>Predicates and examples used in the statements\<close>

text \<open>
  No key of the table is a purchased or a rejected product: the invariant of every loop of
  \<open>get_recommendations\<close>.
\<close>

definition clean :: "int set \<Rightarrow> int set \<Rightarrow> (int \<times> 'v) list \<Rightarrow> bool" where
  "clean P N ps \<longleftrightarrow> fst ` set ps \<inter> (P \<union> N) = {}"

text \<open>
  The category field of an item, from the category the selector counts, and the two
  invariants of its first pass: every counted category and every deferred item's category
  is among the selected ones, and the counts are the numbers of items per category, none
  above the cap.
\<close>

definition cat_field :: "int \<Rightarrow> int option" where
  "cat_field c = (if c \<noteq> 0 then Some c else None)"

definition covered :: "diversity_state \<Rightarrow> bool" where
  "covered st \<longleftrightarrow>
     (\<forall>c. category_counts st c > 0 \<longrightarrow> c \<in> set (selected_categories st)) \<and>
     (\<forall>(pid, data) \<in> set (skipped_for_diversity st).
        category_of data \<in> set (selected_categories st))"

definition counted :: "diversity_state \<Rightarrow> bool" where
  "counted st \<longleftrightarrow>
     (\<forall>c. category_counts st c =
            length (filter (\<lambda>it. item_category_id it = cat_field c) (recommendations st))) \<and>
     (\<forall>c. category_counts st c \<le> diversity_max_per_category)"

text \<open>
  The entry the cold-start loop stores for the product at rank \<open>i\<close>, and the products
  of the popularity list that pass its guard, each with its id and its rank.
\<close>

definition popular_entry :: "nat \<Rightarrow> row \<Rightarrow> entry" where
  "popular_entry i p =
     \<lparr>entry_score = 1 - real i * (5 / 100), behavioral_score = 1 - real i * (5 / 100),
      personality_score = 0, reasons = [''Bestseller''], product = Some p,
      primary_reason = Some ''popular''\<rparr>"

definition candidate_of ::
  "int set \<Rightarrow> int set \<Rightarrow> nat \<times> row option \<Rightarrow> (int \<times> nat \<times> row) option" where
  "candidate_of P N ir =
     (case snd ir of
        None \<Rightarrow> None
      | Some p \<Rightarrow>
          (case py_or (id_key p) (product_id p) of
             None \<Rightarrow> None
           | Some k \<Rightarrow> if k \<noteq> 0 \<and> k \<notin> P \<and> k \<notin> N then Some (k, fst ir, p) else None))"

definition popular_candidates ::
  "int set \<Rightarrow> int set \<Rightarrow> row option list \<Rightarrow> (int \<times> nat \<times> row) list" where
  "popular_candidates P N popular = List.map_filter (candidate_of P N) (enumerate 0 popular)"

text \<open>
  A record without its timestamps, and two lists of records that differ in timestamps at
  most and age alike: they have the same length and, position by position, both hold
  \<^verbatim>\<open>None\<close> or records that agree apart from their timestamps and have the same
  elapsed days, each under the reading its own invocation takes for it.
\<close>

definition untimed :: "row \<Rightarrow> row" where
  "untimed r =
     r\<lparr>purchase_date := None, ordered_at := None, added_at := None, created_at := None,
       timestamp := None\<rparr>"

definition alike ::
  "(nat \<Rightarrow> real) \<Rightarrow> (nat \<Rightarrow> real) \<Rightarrow> (row \<Rightarrow> py_time option)
     \<Rightarrow> nat \<times> row option \<Rightarrow> nat \<times> row option \<Rightarrow> bool" where
  "alike readings1 readings2 stamp ix jy =
     (case (snd ix, snd jy) of
        (None, None) \<Rightarrow> True
      | (Some p, Some q) \<Rightarrow>
          untimed p = untimed q \<and>
          get_days_ago (readings1 (fst ix)) (stamp p) = get_days_ago (readings2 (fst jy)) (stamp q)
      | _ \<Rightarrow> False)"

definition aged_alike ::
  "(nat \<Rightarrow> real) \<Rightarrow> (nat \<Rightarrow> real) \<Rightarrow> (row \<Rightarrow> py_time option)
     \<Rightarrow> row option list \<Rightarrow> row option list \<Rightarrow> bool" where
  "aged_alike readings1 readings2 stamp xs ys =
     list_all2 (alike readings1 readings2 stamp) (enumerate 0 xs) (enumerate 0 ys)"

text \<open>
  Cold start with 22 popular products, the first 21 of category 1 and the last of
  category 2, and a limit of 11.
\<close>

definition cold_example :: args where
  "cold_example =
     no_args\<lparr>limit := 11,
       popular_products :=
         [Some (product_in 1 1), Some (product_in 2 1), Some (product_in 3 1),
          Some (product_in 4 1), Some (product_in 5 1), Some (product_in 6 1),
          Some (product_in 7 1), Some (product_in 8 1), Some (product_in 9 1),
          Some (product_in 10 1), Some (product_in 11 1), Some (product_in 12 1),
          Some (product_in 13 1), Some (product_in 14 1), Some (product_in 15 1),
          Some (product_in 16 1), Some (product_in 17 1), Some (product_in 18 1),
          Some (product_in 19 1), Some (product_in 20 1), Some (product_in 21 1),
          Some (product_in 22 2)]\<rparr>"

text \<open>
  A user whose only signal is product 5 on the wishlist, added at instant 0; the same
  user with the entry added 14 days (1209600 seconds) later.
\<close>

definition clock_example :: args where
  "clock_example =
     no_args\<lparr>wishlist_ids := [5],
       wishlist := [Some (empty_row\<lparr>product_id := Some 5, added_at := Some (Instant 0)\<rparr>)]\<rparr>"

definition later_example :: args where
  "later_example =
     no_args\<lparr>wishlist_ids := [5],
       wishlist :=
         [Some (empty_row\<lparr>product_id := Some 5, added_at := Some (Instant 1209600)\<rparr>)]\<rparr>"

text \<open>
  Product 1 was purchased (and sits on the wishlist), product 2 was rejected; similar
  users score products 1, 2 and 3.
\<close>

definition exclusion_example :: args where
  "exclusion_example =
     no_args\<lparr>purchased_product_ids := [1], negative_feedback_ids := [2],
       wishlist_ids := [1], wishlist := [Some (empty_row\<lparr>product_id := Some 1\<rparr>)],
       collaborative_scores := [(1, 9 / 10), (2, 8 / 10), (3, 7 / 10)]\<rparr>"

text \<open>A bargain hunter with one purchase and one collaboratively scored product.\<close>

definition alpha_example :: args where
  "alpha_example =
     no_args\<lparr>user_profile := Some \<lparr>personality_type = Some BARGAIN_HUNTER\<rparr>,
       purchased_product_ids := [1], collaborative_scores := [(2, 5 / 10)]\<rparr>"

text \<open>
  Five scored candidates in descending order of score, of categories 1, 1, 1, 2, 3.
\<close>

definition scored_candidate :: "int \<Rightarrow> int \<Rightarrow> real \<Rightarrow> int \<times> entry" where
  "scored_candidate pid cat sc =
     (pid, default_entry\<lparr>entry_score := sc, product := Some (product_in pid cat)\<rparr>)"

definition diversity_example :: "(int \<times> entry) list" where
  "diversity_example =
     [scored_candidate 1 1 (9 / 10), scored_candidate 2 1 (8 / 10), scored_candidate 3 1 (7 / 10),
      scored_candidate 4 2 (6 / 10), scored_candidate 5 3 (5 / 10)]"

section \<open>The settings, for unfolding\<close>

lemmas settings_defs =
  recommendation_alpha_default_def alpha_sparse_collab_threshold_def
  alpha_sparse_collab_boost_def alpha_new_user_threshold_def alpha_new_user_boost_def
  decay_half_life_purchases_def decay_half_life_views_def decay_half_life_wishlist_def
  diversity_max_per_category_def diversity_min_categories_def session_boost_weight_def
  category_affinity_top_n_def category_affinity_boost_def category_affinity_top_boost_def
  price_preference_boost_def price_preference_penalty_def filter_signal_weight_def
  filter_min_samples_def filter_category_max_weight_def filter_category_affinity_weight_def

section \<open>Time decay\<close>

lemma calculate_time_decay_value:
  "half_life \<noteq> 0 \<Longrightarrow> calculate_time_decay days_ago half_life = Inr (time_decay days_ago half_life)"
  by (simp add: calculate_time_decay_def time_decay_def)

lemma half_powr_le_one: "0 \<le> x \<Longrightarrow> (1 / 2 :: real) powr x \<le> 1"
  using powr_mono' [of 0 x "1 / 2"] by simp

text \<open>
  C9. With a non-zero half-life \<open>h\<close>, the decay of \<open>d\<close> elapsed days is \<open>0.5 ^ (d / h)\<close>
  for \<open>d \<ge> 0\<close> and 1 for every non-positive \<open>d\<close> (for negative \<open>d\<close> whatever the
  half-life). For every half-life \<open>h > 0\<close>: the decay of 0 days is 1, the decay of \<open>h\<close>
  days is 0.5, and the decay never increases as the elapsed days grow.
\<close>

theorem calculate_time_decay_law:
  "(d < 0 \<or> (d = 0 \<and> h \<noteq> 0) \<longrightarrow> calculate_time_decay d h = Inr 1) \<and>
   (0 \<le> d \<and> h \<noteq> 0 \<longrightarrow> calculate_time_decay d h = Inr ((1 / 2) powr (d / h))) \<and>
   (0 < h \<longrightarrow>
      calculate_time_decay 0 h = Inr 1 \<and>
      calculate_time_decay h h = Inr (1 / 2) \<and>
      (\<forall>d1 d2. d1 \<le> d2 \<longrightarrow>
         (\<exists>v1 v2. calculate_time_decay d1 h = Inr v1 \<and> calculate_time_decay d2 h = Inr v2 \<and>
                   v2 \<le> v1)))"
proof (intro conjI impI allI)
  assume "d < 0 \<or> (d = 0 \<and> h \<noteq> 0)"
  then show "calculate_time_decay d h = Inr 1"
    by (auto simp: calculate_time_decay_def)
next
  assume "0 \<le> d \<and> h \<noteq> 0"
  then show "calculate_time_decay d h = Inr ((1 / 2) powr (d / h))"
    by (simp add: calculate_time_decay_def)
next
  assume "0 < h"
  then show "calculate_time_decay 0 h = Inr 1"
    by (simp add: calculate_time_decay_def)
next
  assume "0 < h"
  then show "calculate_time_decay h h = Inr (1 / 2)"
    by (simp add: calculate_time_decay_def)
next
  fix d1 d2 :: real
  assume h: "0 < h" and le: "d1 \<le> d2"
  show "\<exists>v1 v2. calculate_time_decay d1 h = Inr v1 \<and> calculate_time_decay d2 h = Inr v2 \<and>
                v2 \<le> v1"
  proof (cases "d2 < 0")
    case True
    with le show ?thesis by (simp add: calculate_time_decay_def)
  next
    case d2: False
    show ?thesis
    proof (cases "d1 < 0")
      case True
      from d2 h have "0 \<le> d2 / h" by simp
      then have "(1 / 2 :: real) powr (d2 / h) \<le> 1" by (rule half_powr_le_one)
      with True d2 h show ?thesis by (simp add: calculate_time_decay_def)
    next
      case False
      from le h have "d1 / h \<le> d2 / h" by (simp add: divide_right_mono)
      then have "(1 / 2 :: real) powr (d2 / h) \<le> (1 / 2) powr (d1 / h)"
        by (rule powr_mono') simp_all
      with False d2 h show ?thesis by (simp add: calculate_time_decay_def)
    qed
  qed
qed

theorem calculate_time_decay_law_witness:
  "calculate_time_decay 0 14 = Inr 1 \<and> calculate_time_decay 14 14 = Inr (1 / 2) \<and>
   (\<exists>v1 v2. calculate_time_decay 7 14 = Inr v1 \<and> calculate_time_decay 28 14 = Inr v2 \<and> v2 \<le> v1)"
  using calculate_time_decay_law [of 0 14] by simp

section \<open>Archetype classification\<close>

lemma weighted_squares_nonneg: "0 \<le> weighted_squares d p"
  by (simp add: weighted_squares_def DIMENSION_WEIGHTS_def Let_def)

lemma weighted_squares_expand:
  "weighted_squares d p =
     25 / 100 * ((case d price_sensitivity of None \<Rightarrow> 1 / 2 | Some v \<Rightarrow> v) - p price_sensitivity)\<^sup>2 +
     20 / 100 * ((case d exploration_tendency of None \<Rightarrow> 1 / 2 | Some v \<Rightarrow> v) - p exploration_tendency)\<^sup>2 +
     15 / 100 * ((case d sentiment_tendency of None \<Rightarrow> 1 / 2 | Some v \<Rightarrow> v) - p sentiment_tendency)\<^sup>2 +
     20 / 100 * ((case d purchase_frequency of None \<Rightarrow> 1 / 2 | Some v \<Rightarrow> v) - p purchase_frequency)\<^sup>2 +
     20 / 100 * ((case d decision_speed of None \<Rightarrow> 1 / 2 | Some v \<Rightarrow> v) - p decision_speed)\<^sup>2"
  by (simp add: weighted_squares_def DIMENSION_WEIGHTS_def Let_def)

lemma profile_distance_nonneg: "0 \<le> profile_distance d p"
  by (simp add: profile_distance_def weighted_squares_nonneg)

lemma classify_step_best_of:
  "best_of d seen b \<Longrightarrow> best_of d (seen @ [e]) (classify_step d b e)"
  by (cases b; cases e)
     (auto simp: best_of_def classify_step_def Let_def split: option.splits)

lemma classify_fold_best_of:
  "best_of d seen b \<Longrightarrow> best_of d (seen @ xs) (foldl (classify_step d) b xs)"
proof (induction xs arbitrary: seen b)
  case Nil
  then show ?case by simp
next
  case (Cons e xs)
  from Cons.IH [OF classify_step_best_of [OF Cons.prems, of e]]
  show ?case by simp
qed

lemma classify_best_of:
  "best_of d PERSONALITY_PROFILES
     (foldl (classify_step d) (PRACTICAL_SHOPPER, None) PERSONALITY_PROFILES)"
  using classify_fold_best_of [of d "[]" "(PRACTICAL_SHOPPER, None)" PERSONALITY_PROFILES]
  by (simp add: best_of_def)

lemma canonical_profile: "(t, p) \<in> set PERSONALITY_PROFILES \<Longrightarrow> canonical t = p"
  by (auto simp: canonical_def PERSONALITY_PROFILES_def)

lemma canonical_listed: "(t, canonical t) \<in> set PERSONALITY_PROFILES"
  by (cases t) (simp_all add: canonical_def PERSONALITY_PROFILES_def)

lemma classify_minimal:
  "profile_distance d (canonical (fst (classify d))) \<le> profile_distance d (canonical t)"
  and classify_confidence:
  "snd (classify d) = max 0 (1 - profile_distance d (canonical (fst (classify d))))"
proof -
  define b where "b = foldl (classify_step d) (PRACTICAL_SHOPPER, None) PERSONALITY_PROFILES"
  have inv: "best_of d PERSONALITY_PROFILES b"
    unfolding b_def by (rule classify_best_of)
  have ne: "PERSONALITY_PROFILES \<noteq> []" by (simp add: PERSONALITY_PROFILES_def)
  from inv ne obtain s p where s: "snd b = Some s" and p: "(fst b, p) \<in> set PERSONALITY_PROFILES"
    and sp: "s = profile_distance d p"
    and least: "\<forall>e \<in> set PERSONALITY_PROFILES. s \<le> profile_distance d (snd e)"
    by (auto simp: best_of_def split: option.splits)
  have fst: "fst (classify d) = fst b" by (simp add: classify_def b_def Let_def)
  have snd: "snd (classify d) = max 0 (min 1 (1 - s))"
    using s by (simp add: classify_def b_def [symmetric] Let_def)
  have can: "canonical (fst b) = p" using p by (rule canonical_profile)
  from least canonical_listed [of t] have "s \<le> profile_distance d (canonical t)" by force
  then show "profile_distance d (canonical (fst (classify d))) \<le> profile_distance d (canonical t)"
    by (simp add: fst can sp)
  have "0 \<le> s" by (simp add: sp profile_distance_nonneg)
  then show "snd (classify d) = max 0 (1 - profile_distance d (canonical (fst (classify d))))"
    by (simp add: snd fst can sp)
qed

lemma cautious_example_zero:
  "weighted_squares cautious_example (canonical t) = 0 \<longleftrightarrow> t = CAUTIOUS_VALUE_SEEKER"
  by (cases t)
     (simp_all add: weighted_squares_expand canonical_def PERSONALITY_PROFILES_def
        cautious_example_def power2_eq_square)

lemma classify_cautious_example: "classify cautious_example = (CAUTIOUS_VALUE_SEEKER, 1)"
proof -
  have "profile_distance cautious_example (canonical (fst (classify cautious_example)))
          \<le> profile_distance cautious_example (canonical CAUTIOUS_VALUE_SEEKER)"
    by (rule classify_minimal)
  also have "\<dots> = 0"
    using cautious_example_zero [of CAUTIOUS_VALUE_SEEKER] by (simp add: profile_distance_def)
  finally have z: "profile_distance cautious_example (canonical (fst (classify cautious_example))) = 0"
    using profile_distance_nonneg [of cautious_example "canonical (fst (classify cautious_example))"]
    by simp
  then have "weighted_squares cautious_example (canonical (fst (classify cautious_example))) = 0"
    by (simp add: profile_distance_def)
  then have t: "fst (classify cautious_example) = CAUTIOUS_VALUE_SEEKER"
    by (simp add: cautious_example_zero)
  have "snd (classify cautious_example) = 1"
    using classify_confidence [of cautious_example] z by simp
  with t show ?thesis by (simp add: prod_eq_iff)
qed

text \<open>
  C8. For every dimension map, \<open>classify\<close> returns an archetype whose canonical vector is
  at the least weighted Euclidean distance \<open>sqrt (\<Sum> w\<^sub>i (d\<^sub>i - c\<^sub>i)\<^sup>2)\<close>, with the weights
  0.25, 0.20, 0.15, 0.20, 0.20, among the eight canonical vectors, and the confidence is
  \<open>max 0 (1 - distance)\<close>. The dimensions (0.9, 0.3, 0.5, 0.4, 0.2) classify as the
  cautious value seeker, with confidence 1, inside [0.95, 1].
\<close>

theorem classify_nearest_archetype:
  "(\<forall>t. profile_distance d (canonical (fst (classify d))) \<le> profile_distance d (canonical t)) \<and>
   snd (classify d) = max 0 (1 - profile_distance d (canonical (fst (classify d)))) \<and>
   (\<forall>p. profile_distance d p =
      sqrt (25 / 100 * ((case d price_sensitivity of None \<Rightarrow> 1 / 2 | Some v \<Rightarrow> v) - p price_sensitivity)\<^sup>2 +
            20 / 100 * ((case d exploration_tendency of None \<Rightarrow> 1 / 2 | Some v \<Rightarrow> v) - p exploration_tendency)\<^sup>2 +
            15 / 100 * ((case d sentiment_tendency of None \<Rightarrow> 1 / 2 | Some v \<Rightarrow> v) - p sentiment_tendency)\<^sup>2 +
            20 / 100 * ((case d purchase_frequency of None \<Rightarrow> 1 / 2 | Some v \<Rightarrow> v) - p purchase_frequency)\<^sup>2 +
            20 / 100 * ((case d decision_speed of None \<Rightarrow> 1 / 2 | Some v \<Rightarrow> v) - p decision_speed)\<^sup>2)) \<and>
   classify cautious_example = (CAUTIOUS_VALUE_SEEKER, 1) \<and>
   95 / 100 \<le> snd (classify cautious_example) \<and> snd (classify cautious_example) \<le> 1"
  using classify_minimal [of d] classify_confidence [of d]
  by (simp add: classify_cautious_example profile_distance_def weighted_squares_expand)

theorem classify_nearest_archetype_witness:
  "profile_distance cautious_example (canonical (fst (classify cautious_example)))
     \<le> profile_distance cautious_example (canonical BARGAIN_HUNTER) \<and>
   classify cautious_example = (CAUTIOUS_VALUE_SEEKER, 1)"
  using classify_nearest_archetype [of cautious_example] by blast

section \<open>Purchase frequency\<close>

text \<open>
  C10. When the statistics report at least two orders and the first and the last purchase
  are no whole day apart (\<^verbatim>\<open>(last - first).days \<le> 0\<close>), the purchase-frequency
  dimension is 0.5, which is neither the default 0.3 of fewer than two orders nor one of
  the bucket values 1.0, 0.8, 0.6, 0.4, 0.2, 0.1.
\<close>

theorem purchase_frequency_same_day:
  assumes "first_purchase stats = Some (Instant f)"
    and "last_purchase stats = Some (Instant l)"
    and "total_orders stats = Some n" and "2 \<le> n"
    and "\<lfloor>(l - f) / 86400\<rfloor> \<le> 0"
  shows "calculate_purchase_frequency stats = Inr (5 / 10) \<and>
         (5 / 10 :: real) \<notin> {3 / 10, 1, 8 / 10, 6 / 10, 4 / 10, 2 / 10, 1 / 10}"
  using assms by (simp add: calculate_purchase_frequency_def)

theorem purchase_frequency_same_day_witness:
  "calculate_purchase_frequency
     \<lparr>first_purchase = Some (Instant 1000), last_purchase = Some (Instant 4600),
      total_orders = Some 4\<rparr> = Inr (5 / 10)"
  using purchase_frequency_same_day
    [of "\<lparr>first_purchase = Some (Instant 1000), last_purchase = Some (Instant 4600),
          total_orders = Some 4\<rparr>" 1000 4600 4]
  by simp

section \<open>Filter signals\<close>

lemma extract_price_signals_few:
  "length (extract_filter_interactions interactions) < filter_min_samples \<Longrightarrow>
   extract_price_signals interactions = (None, None)"
  by (simp add: extract_price_signals_def)

lemma calculate_price_sensitivity_signal_few:
  "length (extract_filter_interactions interactions) < filter_min_samples \<Longrightarrow>
   calculate_price_sensitivity_signal interactions = None"
  by (simp add: calculate_price_sensitivity_signal_def)

text \<open>
  C4. With fewer than \<open>filter_min_samples\<close> filter events the two price methods return
  no signal, but \<open>calculate_filter_based_category_affinity\<close> has no such gate: a single
  filter selection of category 7 gives that category the full affinity 1.
\<close>

theorem category_affinity_ignores_min_samples:
  "length (extract_filter_interactions one_category_filter) < filter_min_samples \<and>
   extract_price_signals one_category_filter = (None, None) \<and>
   calculate_price_sensitivity_signal one_category_filter = None \<and>
   calculate_filter_based_category_affinity one_category_filter = [(7, 1)]"
  by (simp add: one_category_filter_def empty_row_def extract_price_signals_def
      calculate_price_sensitivity_signal_def calculate_filter_based_category_affinity_def
      extract_category_signals_def settings_defs)

section \<open>Price preference\<close>

lemma purchase_prices_example:
  "purchase_prices (purchases_at [20, 25, 30, 100]) = [20, 25, 30, 100]"
  by (simp add: purchases_at_def empty_row_def num_or_def)

lemma percentile_example:
  "percentile [20, 25, 30, 100] 25 = 95 / 4" "percentile [20, 25, 30, 100] 75 = 95 / 2"
  by (simp_all add: percentile_def Let_def)

lemma price_preference_example:
  "calculate_price_preference (purchases_at [20, 25, 30, 100]) [] = (19, Some 57)"
  by (simp add: calculate_price_preference_def purchase_prices_example percentile_example Let_def)

text \<open>
  C7, as stated, fails on its example: for the purchases 20, 25, 30, 100 the 75th
  percentile is 47.5, which is 3.75 away from the stated 51.25, and the buffered maximum
  is 57, which is 4.5 away from the stated 61.5.
\<close>

theorem price_preference_example_counterexample:
  "\<bar>percentile (purchase_prices (purchases_at [20, 25, 30, 100])) 75 - 5125 / 100\<bar> = 375 / 100 \<and>
   (\<exists>hi. calculate_price_preference (purchases_at [20, 25, 30, 100]) [] = (19, Some hi) \<and>
         \<bar>hi - 615 / 10\<bar> = 45 / 10)"
  by (simp add: purchase_prices_example percentile_example price_preference_example)

text \<open>
  C7, amended. With fewer than 3 positively priced purchases the range is the
  unrestricted one, under which every price scores 0. With at least 3 the range is
  \<open>[0.8 p25, 1.2 p75]\<close> of the purchase prices, blended bound by bound with the filter
  range (\<open>0.7\<close> purchase, \<open>0.3\<close> filter; a missing filter bound leaves the purchase
  bound) when the interactions yield one. A price inside a bounded range scores +0.15;
  a price outside it scores -0.1 when it is below half the minimum or above twice the
  maximum, and 0 otherwise. For the purchases 20, 25, 30, 100: p25 = 23.75, p75 = 47.5,
  the range is [19, 57], a price of 25 scores +0.15 and a price of 500 scores -0.1.
\<close>

theorem price_preference_range_and_score:
  "(length (purchase_prices bought) < 3 \<longrightarrow>
      calculate_price_preference bought interactions = (0, None) \<and>
      score_price_preference x 0 None = 0) \<and>
   (3 \<le> length (purchase_prices bought) \<longrightarrow>
      calculate_price_preference bought interactions =
        (let lo = percentile (purchase_prices bought) 25 * (8 / 10);
             hi = percentile (purchase_prices bought) 75 * (12 / 10);
             f = extract_price_signals interactions
         in if interactions \<noteq> [] \<and> f \<noteq> (None, None)
            then (case fst f of Some fmin \<Rightarrow> 7 / 10 * lo + 3 / 10 * fmin | None \<Rightarrow> lo,
                  Some (case snd f of Some fmax \<Rightarrow> 7 / 10 * hi + 3 / 10 * fmax | None \<Rightarrow> hi))
            else (lo, Some hi))) \<and>
   (pmin \<le> x \<and> x \<le> pmax \<longrightarrow> score_price_preference x pmin (Some pmax) = 15 / 100) \<and>
   (\<not> (pmin \<le> x \<and> x \<le> pmax) \<and> (x < pmin * (5 / 10) \<or> pmax * 2 < x) \<longrightarrow>
      score_price_preference x pmin (Some pmax) = - (1 / 10)) \<and>
   (\<not> (pmin \<le> x \<and> x \<le> pmax) \<and> \<not> (x < pmin * (5 / 10) \<or> pmax * 2 < x) \<longrightarrow>
      score_price_preference x pmin (Some pmax) = 0) \<and>
   percentile (purchase_prices (purchases_at [20, 25, 30, 100])) 25 = 2375 / 100 \<and>
   percentile (purchase_prices (purchases_at [20, 25, 30, 100])) 75 = 475 / 10 \<and>
   calculate_price_preference (purchases_at [20, 25, 30, 100]) [] = (19, Some 57) \<and>
   score_price_preference 25 19 (Some 57) = 15 / 100 \<and>
   score_price_preference 500 19 (Some 57) = - (1 / 10)"
proof (intro conjI impI)
  assume "length (purchase_prices bought) < 3"
  then show "calculate_price_preference bought interactions = (0, None)"
    by (simp add: calculate_price_preference_def)
next
  show "score_price_preference x 0 None = 0"
    by (simp add: score_price_preference_def)
next
  assume "3 \<le> length (purchase_prices bought)"
  then show "calculate_price_preference bought interactions =
        (let lo = percentile (purchase_prices bought) 25 * (8 / 10);
             hi = percentile (purchase_prices bought) 75 * (12 / 10);
             f = extract_price_signals interactions
         in if interactions \<noteq> [] \<and> f \<noteq> (None, None)
            then (case fst f of Some fmin \<Rightarrow> 7 / 10 * lo + 3 / 10 * fmin | None \<Rightarrow> lo,
                  Some (case snd f of Some fmax \<Rightarrow> 7 / 10 * hi + 3 / 10 * fmax | None \<Rightarrow> hi))
            else (lo, Some hi))"
    by (cases "extract_price_signals interactions")
       (auto simp: calculate_price_preference_def blend_price_ranges_def Let_def
          filter_signal_weight_def split: option.splits)
next
  assume "pmin \<le> x \<and> x \<le> pmax"
  then show "score_price_preference x pmin (Some pmax) = 15 / 100"
    by (simp add: score_price_preference_def price_preference_boost_def)
next
  assume "\<not> (pmin \<le> x \<and> x \<le> pmax) \<and> (x < pmin * (5 / 10) \<or> pmax * 2 < x)"
  then show "score_price_preference x pmin (Some pmax) = - (1 / 10)"
    by (auto simp: score_price_preference_def price_preference_penalty_def)
next
  assume "\<not> (pmin \<le> x \<and> x \<le> pmax) \<and> \<not> (x < pmin * (5 / 10) \<or> pmax * 2 < x)"
  then show "score_price_preference x pmin (Some pmax) = 0"
    by (auto simp: score_price_preference_def)
qed (simp_all add: purchase_prices_example percentile_example price_preference_example
       score_price_preference_def price_preference_boost_def price_preference_penalty_def)

theorem price_preference_range_and_score_witness:
  "length (purchase_prices (purchases_at [20, 25, 30])) = 3 \<and>
   calculate_price_preference (purchases_at [20, 25, 30]) [] = (18, Some 33) \<and>
   score_price_preference 25 18 (Some 33) = 15 / 100 \<and>
   score_price_preference 8 18 (Some 33) = - (1 / 10) \<and>
   score_price_preference 40 18 (Some 33) = 0 \<and>
   calculate_price_preference (purchases_at [20, 25]) [] = (0, None)"
proof -
  have three: "purchase_prices (purchases_at [20, 25, 30]) = [20, 25, 30]"
    by (simp add: purchases_at_def empty_row_def num_or_def)
  have two: "purchase_prices (purchases_at [20, 25]) = [20, 25]"
    by (simp add: purchases_at_def empty_row_def num_or_def)
  have pc: "percentile [20, 25, 30] 25 = 45 / 2" "percentile [20, 25, 30] 75 = 55 / 2"
    by (simp_all add: percentile_def Let_def)
  show ?thesis
    using price_preference_range_and_score [of "purchases_at [20, 25, 30]" "[]" 25 18 33]
      price_preference_range_and_score [of "purchases_at [20, 25]" "[]" 8 18 33]
      price_preference_range_and_score [of "purchases_at [20, 25]" "[]" 40 18 33]
    by (simp add: three two pc Let_def)
qed

section \<open>Rows and examples\<close>

lemma empty_row_simps:
  "id_key empty_row = None" "product_id empty_row = None" "category_id empty_row = None"
  "category_name empty_row = None" "name empty_row = None" "price empty_row = None"
  "product_price empty_row = None" "image_url empty_row = None" "added_at empty_row = None"
  "filter_context empty_row = None"
  by (simp_all add: empty_row_def)

lemma product_in_simps:
  "id_key (product_in p c) = Some p" "product_id (product_in p c) = None"
  "category_id (product_in p c) = Some c" "category_name (product_in p c) = None"
  "name (product_in p c) = None" "price (product_in p c) = None"
  "image_url (product_in p c) = None"
  by (simp_all add: product_in_def empty_row_def)

section \<open>Loops and tables\<close>

lemma foldl_preserves:
  "I s \<Longrightarrow> (\<And>s x. I s \<Longrightarrow> I (f s x)) \<Longrightarrow> I (foldl f s xs)"
  by (induction xs arbitrary: s) auto

lemma keys_alist_upd: "fst ` set (alist_upd k f d m) = insert k (fst ` set m)"
  by (induction m) (force split: if_splits)+

lemma keys_touch: "fst ` set (touch k f ps) = insert k (fst ` set ps)"
  by (simp add: touch_def keys_alist_upd)

lemma alist_upd_fresh: "k \<notin> fst ` set m \<Longrightarrow> alist_upd k f d m = m @ [(k, f d)]"
  by (induction m) (auto split: if_splits)

lemma touch_fresh: "k \<notin> fst ` set ps \<Longrightarrow> touch k f ps = ps @ [(k, f default_entry)]"
  by (simp add: touch_def alist_upd_fresh)

lemma for_rows_cong:
  "(\<And>s p. Some p \<in> set rows \<Longrightarrow> f s p = g s p) \<Longrightarrow> for_rows f s rows = for_rows g s rows"
  unfolding for_rows_def by (rule foldl_cong) (auto split: option.splits)

section \<open>Excluded products\<close>

lemma clean_Nil: "clean P N []"
  by (simp add: clean_def)

lemma clean_foldl:
  "clean P N s \<Longrightarrow> (\<And>s x. clean P N s \<Longrightarrow> clean P N (f s x)) \<Longrightarrow>
   clean P N (foldl f s xs)"
  by (rule foldl_preserves)

lemma clean_for_rows:
  "clean P N s \<Longrightarrow> (\<And>s p. clean P N s \<Longrightarrow> clean P N (body s p)) \<Longrightarrow>
   clean P N (for_rows body s rows)"
  unfolding for_rows_def by (rule clean_foldl) (auto split: option.splits)

lemma clean_when_eligible:
  "clean P N s \<Longrightarrow>
   (\<And>k s. k \<noteq> 0 \<Longrightarrow> k \<notin> P \<Longrightarrow> k \<notin> N \<Longrightarrow> clean P N s \<Longrightarrow> clean P N (f k s)) \<Longrightarrow>
   clean P N (when_eligible P N pid f s)"
  by (auto simp: when_eligible_def split: option.splits)

lemma clean_touch: "clean P N ps \<Longrightarrow> k \<notin> P \<Longrightarrow> k \<notin> N \<Longrightarrow> clean P N (touch k f ps)"
  by (simp add: clean_def keys_touch)

lemma clean_alist_upd:
  "clean P N m \<Longrightarrow> k \<notin> P \<Longrightarrow> k \<notin> N \<Longrightarrow> clean P N (alist_upd k f d m)"
  by (simp add: clean_def keys_alist_upd)

lemma clean_same_keys: "map fst qs = map fst ps \<Longrightarrow> clean P N ps \<Longrightarrow> clean P N qs"
  by (metis clean_def list.set_map)

lemma clean_popular_scores: "clean P N ps \<Longrightarrow> clean P N (popular_scores P N popular ps)"
  unfolding popular_scores_def
  by (rule clean_foldl)
     (auto split: option.splits simp: Let_def popular_step_def
        intro!: clean_when_eligible clean_touch)

lemma clean_collaborative_component:
  "clean P N ps \<Longrightarrow> clean P N (collaborative_component P N collab al ps)"
  unfolding collaborative_component_def
  by (auto intro!: clean_foldl clean_when_eligible clean_touch split: prod.splits)

lemma clean_content_component:
  "clean P N ps \<Longrightarrow> clean P N (content_component P N content al ps)"
  unfolding content_component_def
  by (auto intro!: clean_foldl clean_when_eligible clean_touch
        split: prod.splits option.splits simp: Let_def)

lemma clean_personality_component:
  "clean P N ps \<Longrightarrow> clean P N (personality_component P N prof products al ps)"
  unfolding personality_component_def
  by (auto intro!: clean_foldl clean_touch split: prod.splits option.splits)

lemma keys_alpha_blend: "map fst (alpha_blend collab content al ps) = map fst ps"
  by (simp add: alpha_blend_def Let_def case_prod_unfold comp_def)

lemma clean_wishlist_boost:
  "clean P N ps \<Longrightarrow> clean P N (wishlist_boost readings P N wl wl_ids products ps)"
  unfolding wishlist_boost_def
  by (auto intro!: clean_foldl clean_for_rows clean_when_eligible clean_touch
        simp: Let_def wishlist_step_def split: option.splits)

lemma clean_viewed_products_decay:
  "clean P N (viewed_products_decay readings P N nr vs)"
  unfolding viewed_products_decay_def
  by (auto intro!: clean_foldl clean_when_eligible clean_alist_upd clean_Nil
        simp: Let_def view_decay_step_def split: option.splits)

lemma clean_foldl_touch:
  "clean P N ps \<Longrightarrow> clean P N kvs \<Longrightarrow> clean P N (foldl (\<lambda>ps (k, v). touch k (g v) ps) ps kvs)"
proof (induction kvs arbitrary: ps)
  case Nil
  then show ?case by simp
next
  case (Cons kv kvs)
  obtain k v where kv: "kv = (k, v)" by (cases kv)
  from Cons.prems(2) have k: "k \<notin> P" "k \<notin> N" and rest: "clean P N kvs"
    by (auto simp: clean_def kv)
  from Cons.IH [OF clean_touch [OF Cons.prems(1) k] rest]
  show ?case by (simp add: kv)
qed

lemma clean_viewed_boost:
  "clean P N ps \<Longrightarrow> clean P N (viewed_boost readings P N nr vs v_ids products ps)"
  unfolding viewed_boost_def
  by (auto intro!: clean_foldl_touch clean_viewed_products_decay
        clean_for_rows clean_when_eligible clean_touch)

lemma clean_session_boost:
  "clean P N ps \<Longrightarrow> clean P N (session_boost P N S sp products ps)"
  unfolding session_boost_def
  by (auto intro!: clean_for_rows clean_when_eligible simp: Let_def clean_touch
        split: if_splits)

lemma clean_category_boost:
  "clean P N ps \<Longrightarrow> clean P N (category_boost P N ca tids tid products ps)"
  unfolding category_boost_def
  by (auto intro!: clean_for_rows clean_when_eligible clean_touch
        simp: Let_def split: option.splits)

lemma clean_price_scoring:
  "clean P N ps \<Longrightarrow> clean P N (price_scoring P N pmin pmax products ps)"
  unfolding price_scoring_def
  by (auto intro!: clean_for_rows clean_when_eligible clean_touch
        simp: Let_def split: option.splits)

lemma keys_review_penalty: "map fst (review_penalty nr ps) = map fst ps"
  by (simp add: review_penalty_def case_prod_unfold comp_def)

lemma keys_merge_products: "map fst (merge_products products ps) = map fst ps"
  by (auto simp: merge_products_def Let_def case_prod_unfold comp_def split: option.splits
        intro!: map_cong)

lemma clean_build_scores:
  "clean (set (purchased_product_ids a)) (set (negative_feedback_ids a)) (build_scores clk a)"
proof (cases "cold_start a")
  case True
  then show ?thesis
    by (simp add: build_scores_def Let_def clean_popular_scores clean_Nil)
next
  case False
  then show ?thesis
    unfolding build_scores_def Let_def
    by (simp only: if_False)
       (intro clean_same_keys [OF keys_review_penalty] clean_price_scoring clean_category_boost
         clean_session_boost clean_viewed_boost clean_wishlist_boost
         clean_same_keys [OF keys_alpha_blend] clean_personality_component
         clean_content_component clean_collaborative_component clean_Nil)
qed

section \<open>The diversity selector\<close>

lemma cat_field_inj: "cat_field c = cat_field c' \<longleftrightarrow> c = c'"
  by (auto simp: cat_field_def split: if_splits)

lemma item_category_id_make_item: "item_category_id (make_item pid data) = cat_field (category_of data)"
  by (simp add: make_item_def cat_field_def Let_def)

lemma covered_initial: "covered initial_state"
  by (simp add: covered_def initial_state_def)

lemma counted_initial: "counted initial_state"
  by (simp add: counted_def initial_state_def)

lemma first_pass_covered: "covered st \<Longrightarrow> covered (first_pass lm xs st)"
proof (induction lm xs st rule: first_pass.induct)
  case (1 lm st)
  then show ?case by simp
next
  case (2 lm pid data sorted_products st)
  show ?case
  proof (cases "int (length (recommendations st)) \<ge> lm")
    case True
    with 2 show ?thesis by simp
  next
    case nf: False
    show ?thesis
    proof (cases "category_counts st (category_of data) \<ge> diversity_max_per_category")
      case True
      then have "category_of data \<in> set (selected_categories st)"
        using "2.prems" by (auto simp: covered_def diversity_max_per_category_def)
      then have "covered (st\<lparr>skipped_for_diversity := skipped_for_diversity st @ [(pid, data)]\<rparr>)"
        using "2.prems" by (auto simp: covered_def)
      from "2.IH"(1) [OF _ refl True this] nf True show ?thesis by (simp add: Let_def)
    next
      case False
      have "covered (st\<lparr>category_counts := (category_counts st)
                (category_of data := category_counts st (category_of data) + 1),
              selected_categories := add_category (category_of data) (selected_categories st),
              recommendations := recommendations st @ [make_item pid data]\<rparr>)"
        using "2.prems" by (auto simp: covered_def add_category_def)
      from "2.IH"(2) [OF _ refl False this] nf False show ?thesis by (simp add: Let_def)
    qed
  qed
qed

lemma first_pass_counted: "counted st \<Longrightarrow> counted (first_pass lm xs st)"
proof (induction lm xs st rule: first_pass.induct)
  case (1 lm st)
  then show ?case by simp
next
  case (2 lm pid data sorted_products st)
  show ?case
  proof (cases "int (length (recommendations st)) \<ge> lm")
    case True
    with 2 show ?thesis by simp
  next
    case nf: False
    show ?thesis
    proof (cases "category_counts st (category_of data) \<ge> diversity_max_per_category")
      case True
      have "counted (st\<lparr>skipped_for_diversity := skipped_for_diversity st @ [(pid, data)]\<rparr>)"
        using "2.prems" unfolding counted_def by auto
      from "2.IH"(1) [OF _ refl True this] nf True show ?thesis by (simp add: Let_def)
    next
      case False
      have "counted (st\<lparr>category_counts := (category_counts st)
                (category_of data := category_counts st (category_of data) + 1),
              selected_categories := add_category (category_of data) (selected_categories st),
              recommendations := recommendations st @ [make_item pid data]\<rparr>)"
        using "2.prems" False
        by (auto simp: counted_def item_category_id_make_item cat_field_inj)
      from "2.IH"(2) [OF _ refl False this] nf False show ?thesis by (simp add: Let_def)
    qed
  qed
qed

lemma second_pass_inert:
  "\<forall>(pid, data) \<in> set skipped. category_of data \<in> set (selected_categories st) \<Longrightarrow>
   second_pass lm skipped st = st"
  by (induction lm skipped st rule: second_pass.induct) (auto simp: Let_def)

text \<open>The second pass never adds an item: the selector is its first pass.\<close>

lemma apply_diversity_first_pass:
  "apply_diversity sorted_products lm =
     recommendations (first_pass lm sorted_products initial_state)"
proof -
  have "covered (first_pass lm sorted_products initial_state)"
    by (rule first_pass_covered [OF covered_initial])
  then have "second_pass lm
      (skipped_for_diversity (first_pass lm sorted_products initial_state))
      (first_pass lm sorted_products initial_state)
    = first_pass lm sorted_products initial_state"
    by (intro second_pass_inert) (simp add: covered_def)
  then show ?thesis by (simp add: apply_diversity_def Let_def)
qed

text \<open>
  The cap holds: no category field occurs more than three times in the output. Of the
  code this is the cap for products whose \<^verbatim>\<open>category_id\<close> is an integer or absent; a
  \<^verbatim>\<open>category_id\<close> bound to \<^verbatim>\<open>None\<close> is counted there under its own key and
  yields the same empty field as category 0.
\<close>

lemma apply_diversity_cap:
  "length (filter (\<lambda>it. item_category_id it = cat_field c) (apply_diversity sorted_products lm))
     \<le> diversity_max_per_category"
proof -
  have "counted (first_pass lm sorted_products initial_state)"
    by (rule first_pass_counted [OF counted_initial])
  then have eq: "\<And>c. category_counts (first_pass lm sorted_products initial_state) c =
      length (filter (\<lambda>it. item_category_id it = cat_field c)
               (recommendations (first_pass lm sorted_products initial_state)))"
    and le: "\<And>c. category_counts (first_pass lm sorted_products initial_state) c
           \<le> diversity_max_per_category"
    unfolding counted_def by blast+
  from eq [of c] le [of c] have "length (filter (\<lambda>it. item_category_id it = cat_field c)
               (recommendations (first_pass lm sorted_products initial_state)))
             \<le> diversity_max_per_category"
    by simp
  then show ?thesis by (simp add: apply_diversity_first_pass)
qed

lemma first_pass_subseq:
  "\<exists>ys. subseq ys xs \<and>
        recommendations (first_pass lm xs st) =
          recommendations st @ map (\<lambda>(pid, data). make_item pid data) ys"
proof (induction lm xs st rule: first_pass.induct)
  case (1 lm st)
  then show ?case by simp
next
  case (2 lm pid data sorted_products st)
  show ?case
  proof (cases "int (length (recommendations st)) \<ge> lm")
    case True
    then show ?thesis by (intro exI [of _ "[]"]) simp
  next
    case nf: False
    show ?thesis
    proof (cases "category_counts st (category_of data) \<ge> diversity_max_per_category")
      case True
      from "2.IH"(1) [OF _ refl True] nf obtain ys where
        "subseq ys sorted_products"
        "recommendations (first_pass lm sorted_products
            (st\<lparr>skipped_for_diversity := skipped_for_diversity st @ [(pid, data)]\<rparr>))
         = recommendations st @ map (\<lambda>(pid, data). make_item pid data) ys"
        by auto
      with nf True show ?thesis by (intro exI [of _ ys]) (simp add: Let_def list_emb_Cons)
    next
      case False
      from "2.IH"(2) [OF _ refl False] nf obtain ys where
        "subseq ys sorted_products"
        "recommendations (first_pass lm sorted_products
            (st\<lparr>category_counts := (category_counts st)
                  (category_of data := category_counts st (category_of data) + 1),
                selected_categories := add_category (category_of data) (selected_categories st),
                recommendations := recommendations st @ [make_item pid data]\<rparr>))
         = (recommendations st @ [make_item pid data]) @ map (\<lambda>(pid, data). make_item pid data) ys"
        by auto
      with nf False show ?thesis by (intro exI [of _ "(pid, data) # ys"]) (simp add: Let_def)
    qed
  qed
qed

lemma apply_diversity_subseq:
  "\<exists>ys. subseq ys xs \<and> apply_diversity xs lm = map (\<lambda>(pid, data). make_item pid data) ys"
  using first_pass_subseq [of xs lm initial_state]
  by (simp add: apply_diversity_first_pass initial_state_def)

lemma apply_diversity_ids:
  "item_product_id ` set (apply_diversity xs lm) \<subseteq> fst ` set xs"
proof -
  obtain ys where ys: "subseq ys xs"
    and out: "apply_diversity xs lm = map (\<lambda>(pid, data). make_item pid data) ys"
    using apply_diversity_subseq by blast
  have "set ys \<subseteq> set xs" using ys by (auto elim: list_emb_set)
  then show ?thesis
    by (force simp: out make_item_def Let_def)
qed

lemma category_of_scored_candidate: "category_of (snd (scored_candidate pid cat sc)) = cat"
  by (simp add: scored_candidate_def category_of_def default_entry_def product_in_simps
        opt_default_def)

lemma item_of_scored_candidate:
  "item_product_id (make_item pid (snd (scored_candidate pid cat sc))) = pid"
  "item_category_id (make_item pid (snd (scored_candidate pid cat sc))) = (if cat \<noteq> 0 then Some cat else None)"
  by (simp_all add: make_item_def Let_def category_of_scored_candidate)

text \<open>
  C2. The cap of 3 items per category holds, but the minimum of 3 categories does not:
  for five candidates of categories 1, 1, 1, 2, 3 in descending order of score and a
  limit of 3, which permits three categories, the selector returns the three items of
  category 1. The first pass stops at the limit before it reaches categories 2 and 3,
  and the second pass runs only while the output has room, over deferred items whose
  categories are all selected already.
\<close>

theorem diversity_misses_min_categories:
  "sorted (map (\<lambda>(pid, data). - entry_score data) diversity_example) \<and>
   remdups (map (\<lambda>(pid, data). category_of data) diversity_example) = [1, 2, 3] \<and>
   map (\<lambda>it. (item_product_id it, item_category_id it)) (apply_diversity diversity_example 3)
     = [(1, Some 1), (2, Some 1), (3, Some 1)]"
  by (simp add: diversity_example_def scored_candidate_def apply_diversity_def initial_state_def
        category_of_def default_entry_def product_in_simps opt_default_def make_item_def
        add_category_def Let_def settings_defs)

section \<open>Purchased and rejected products\<close>

lemmas engine_defs = get_recommendations_def build_scores_def cold_start_def
  when_eligible_def touch_def merge_products_def sort_by_score_def apply_diversity_def
  make_item_def category_of_def opt_default_def py_or_def alpha_of_def calculate_adaptive_alpha_def
  calculate_price_preference_def initial_state_def add_category_def for_rows_def
  product_map_of_def negative_reviewed_of_def collaborative_component_def content_component_def
  personality_component_def alpha_blend_def wishlist_boost_def viewed_boost_def session_boost_def
  category_boost_def price_scoring_def review_penalty_def calculate_category_affinity_def
  affinity_pass_def affinity_step_def wishlist_step_def view_decay_step_def
  viewed_products_decay_def purchase_stamp_def view_stamp_def clock_at_def
  get_days_ago_def time_decay_def default_entry_def

lemma exclusion_example_ids:
  "map item_product_id (fst (get_recommendations (clock_at 0) exclusion_example)) = [3]"
  by (simp add: exclusion_example_def no_args_def engine_defs empty_row_simps settings_defs
        Let_def List.map_filter_simps)

text \<open>
  C1. Whatever the arguments and the strategy, no product id of
  \<open>purchased_product_ids\<close> and none of \<open>negative_feedback_ids\<close> is the id of a
  returned recommendation.
\<close>

theorem excluded_products_never_recommended:
  "\<forall>item \<in> set (fst (get_recommendations clk a)).
     item_product_id item \<notin> set (purchased_product_ids a) \<and>
     item_product_id item \<notin> set (negative_feedback_ids a)"
proof
  fix item
  assume "item \<in> set (fst (get_recommendations clk a))"
  then have "item_product_id item \<in> item_product_id `
      set (apply_diversity (sort_by_score (merge_products (all_products a) (build_scores clk a)))
             (limit a))"
    by (simp add: get_recommendations_def Let_def)
  then have "item_product_id item \<in>
      fst ` set (sort_by_score (merge_products (all_products a) (build_scores clk a)))"
    using apply_diversity_ids by blast
  then have "item_product_id item \<in> set (map fst (merge_products (all_products a) (build_scores clk a)))"
    by (simp add: sort_by_score_def)
  then have "item_product_id item \<in> fst ` set (build_scores clk a)"
    by (simp add: keys_merge_products)
  with clean_build_scores [of a clk]
  show "item_product_id item \<notin> set (purchased_product_ids a) \<and>
        item_product_id item \<notin> set (negative_feedback_ids a)"
    by (auto simp: clean_def)
qed

theorem excluded_products_never_recommended_witness:
  "map item_product_id (fst (get_recommendations (clock_at 0) exclusion_example)) = [3] \<and>
   1 \<notin> item_product_id ` set (fst (get_recommendations (clock_at 0) exclusion_example)) \<and>
   2 \<notin> item_product_id ` set (fst (get_recommendations (clock_at 0) exclusion_example))"
  using excluded_products_never_recommended [of "clock_at 0" exclusion_example]
  by (auto simp: exclusion_example_ids) (simp_all add: exclusion_example_def no_args_def)

section \<open>Alpha\<close>

text \<open>
  C3. A supplied alpha is clamped to [0, 1] and reported as not adaptive. Without one,
  alpha is reported adaptive; it is 0 when there is no profile with a personality type,
  and otherwise 0.4, plus 0.2 when the collaborative coverage (scored products over
  the number of products, at least 1) is below 0.05, plus 0.15 when the user has fewer
  than 10 distinct purchased, wishlist and viewed products, clamped to [0.1, 0.9].
\<close>

theorem alpha_selection:
  "(alpha a = Some x \<longrightarrow>
      fst (snd (snd (get_recommendations clk a))) = max 0 (min 1 x) \<and>
      \<not> snd (snd (snd (get_recommendations clk a)))) \<and>
   (alpha a = None \<longrightarrow>
      snd (snd (snd (get_recommendations clk a))) \<and>
      fst (snd (snd (get_recommendations clk a))) =
        (if user_profile a = None \<or> (\<exists>pr. user_profile a = Some pr \<and> personality_type pr = None)
         then 0
         else max (1 / 10) (min (9 / 10)
                (4 / 10
                 + (if real (length (collaborative_scores a)) / real (max (length (all_products a)) 1)
                       < 5 / 100 then 2 / 10 else 0)
                 + (if int (length (remdups (purchased_product_ids a)))
                       + int (length (remdups (wishlist_ids a)))
                       + int (length (remdups (viewed_ids a))) < 10 then 15 / 100 else 0)))))"
  by (auto simp: get_recommendations_def alpha_of_def calculate_adaptive_alpha_def Let_def
        settings_defs split: option.splits)

theorem alpha_selection_witness:
  "snd (snd (get_recommendations (clock_at 0) alpha_example)) = (55 / 100, True) \<and>
   snd (snd (get_recommendations (clock_at 0) (alpha_example\<lparr>alpha := Some (3 / 2)\<rparr>))) = (1, False)"
  using alpha_selection [of alpha_example 0 "clock_at 0"]
    alpha_selection [of "alpha_example\<lparr>alpha := Some (3 / 2)\<rparr>" "3 / 2" "clock_at 0"]
  by (simp add: alpha_example_def no_args_def prod_eq_iff)

section \<open>Cold start\<close>

lemma popular_step_skip: "candidate_of P N ir = None \<Longrightarrow> popular_step P N ps ir = ps"
  by (auto simp: candidate_of_def popular_step_def when_eligible_def split: option.splits if_splits)

lemma popular_step_add:
  "candidate_of P N ir = Some (k, i, p) \<Longrightarrow> k \<notin> fst ` set ps \<Longrightarrow>
   popular_step P N ps ir = ps @ [(k, popular_entry i p)]"
  by (auto simp: candidate_of_def popular_step_def when_eligible_def touch_fresh popular_entry_def
        Let_def split: option.splits if_splits)

lemma popular_fold_distinct:
  "distinct (map fst ps @ map fst (List.map_filter (candidate_of P N) irs)) \<Longrightarrow>
   foldl (popular_step P N) ps irs
   = ps @ map (\<lambda>(k, i, p). (k, popular_entry i p)) (List.map_filter (candidate_of P N) irs)"
proof (induction irs arbitrary: ps)
  case Nil
  then show ?case by (simp add: List.map_filter_simps)
next
  case (Cons ir irs)
  show ?case
  proof (cases "candidate_of P N ir")
    case None
    from Cons.prems None have "distinct (map fst ps @
        map fst (List.map_filter (candidate_of P N) irs))"
      by (simp add: List.map_filter_simps)
    from Cons.IH [OF this] None show ?thesis
      by (simp add: List.map_filter_simps popular_step_skip)
  next
    case (Some c)
    obtain k i p where c: "c = (k, i, p)" by (cases c)
    from Cons.prems Some c have fresh: "k \<notin> fst ` set ps"
      and d: "distinct (map fst (ps @ [(k, popular_entry i p)]) @
        map fst (List.map_filter (candidate_of P N) irs))"
      by (auto simp: List.map_filter_simps)
    from Cons.IH [OF d] Some c fresh show ?thesis
      by (simp add: List.map_filter_simps popular_step_add)
  qed
qed

lemma popular_scores_distinct:
  "distinct (map fst (popular_candidates P N popular)) \<Longrightarrow>
   popular_scores P N popular [] =
     map (\<lambda>(k, i, p). (k, popular_entry i p)) (popular_candidates P N popular)"
  using popular_fold_distinct [of "[]" P N "enumerate 0 popular"]
  by (simp add: popular_scores_def popular_candidates_def)

lemma candidate_ranks:
  "sorted (map (\<lambda>(k, i, p). i) (List.map_filter (candidate_of P N) (enumerate n popular))) \<and>
   (\<forall>(k, i, p) \<in> set (List.map_filter (candidate_of P N) (enumerate n popular)). n \<le> i)"
proof (induction popular arbitrary: n)
  case Nil
  then show ?case by (simp add: List.map_filter_simps)
next
  case (Cons r popular)
  from Cons.IH [of "Suc n"] show ?case
    by (cases "candidate_of P N (n, r)")
       (fastforce simp: List.map_filter_simps candidate_of_def split: option.splits if_splits)+
qed

lemma popular_sorted:
  "sorted (map (\<lambda>(pid, data). - entry_score data)
     (map (\<lambda>(k, i, p). (k, popular_entry i p)) (popular_candidates P N popular)))"
proof -
  have e: "map (\<lambda>(pid, data). - entry_score data)
     (map (\<lambda>(k, i, p). (k, popular_entry i p)) (popular_candidates P N popular))
    = map (\<lambda>i. real i * (5 / 100) - 1) (map (\<lambda>(k, i, p). i) (popular_candidates P N popular))"
    by (simp add: popular_entry_def case_prod_unfold comp_def)
  have s: "sorted (map (\<lambda>i. real i * (5 / 100) - 1)
      (map (\<lambda>(k, i, p). i) (popular_candidates P N popular)))"
    using candidate_ranks [of P N 0 popular]
    by (intro sorted_map_mono) (auto simp: popular_candidates_def intro!: mono_onI)
  show ?thesis unfolding e by (rule s)
qed

lemma merge_products_keeps:
  "\<forall>(k, e) \<in> set ps. product e \<noteq> None \<Longrightarrow> merge_products products ps = ps"
  by (auto simp: merge_products_def Let_def intro!: map_idI split: option.splits)

lemma cold_start_table:
  assumes "cold_start a"
    and "distinct (map fst (popular_candidates (set (purchased_product_ids a))
            (set (negative_feedback_ids a)) (popular_products a)))"
  shows "build_scores clk a =
     map (\<lambda>(k, i, p). (k, popular_entry i p))
       (popular_candidates (set (purchased_product_ids a)) (set (negative_feedback_ids a))
          (popular_products a))"
  using assms by (simp add: build_scores_def Let_def popular_scores_distinct)

lemma cold_start_output:
  assumes "cold_start a"
    and "distinct (map fst (popular_candidates (set (purchased_product_ids a))
            (set (negative_feedback_ids a)) (popular_products a)))"
  shows "fst (get_recommendations clk a) =
     apply_diversity
       (map (\<lambda>(k, i, p). (k, popular_entry i p))
          (popular_candidates (set (purchased_product_ids a)) (set (negative_feedback_ids a))
             (popular_products a)))
       (limit a)"
proof -
  let ?L = "map (\<lambda>(k, i, p). (k, popular_entry i p))
          (popular_candidates (set (purchased_product_ids a)) (set (negative_feedback_ids a))
             (popular_products a))"
  have b: "build_scores clk a = ?L"
    by (rule cold_start_table [OF assms])
  have m: "merge_products (all_products a) ?L = ?L"
    by (rule merge_products_keeps) (auto simp: popular_entry_def)
  have s: "sort_by_score ?L = ?L"
    unfolding sort_by_score_def by (rule sort_key_id_if_sorted) (rule popular_sorted)
  show ?thesis by (simp add: get_recommendations_def Let_def b m s)
qed

lemma item_of_popular_entry:
  "(\<lambda>it. (item_product_id it, item_score it)) (make_item k (popular_entry i p))
     = (k, max 0 (1 - 5 / 100 * real i))"
  by (simp add: make_item_def popular_entry_def Let_def max_def min_def)

lemma cold_example_fields:
  "cold_start cold_example" "limit cold_example = 11"
  "purchased_product_ids cold_example = []" "negative_feedback_ids cold_example = []"
  by (simp_all add: cold_example_def no_args_def cold_start_def)

lemma cold_example_candidates:
  "popular_candidates {} {} (popular_products cold_example) =
     [(1, 0, product_in 1 1), (2, 1, product_in 2 1), (3, 2, product_in 3 1),
      (4, 3, product_in 4 1), (5, 4, product_in 5 1), (6, 5, product_in 6 1),
      (7, 6, product_in 7 1), (8, 7, product_in 8 1), (9, 8, product_in 9 1),
      (10, 9, product_in 10 1), (11, 10, product_in 11 1), (12, 11, product_in 12 1),
      (13, 12, product_in 13 1), (14, 13, product_in 14 1), (15, 14, product_in 15 1),
      (16, 15, product_in 16 1), (17, 16, product_in 17 1), (18, 17, product_in 18 1),
      (19, 18, product_in 19 1), (20, 19, product_in 20 1), (21, 20, product_in 21 1),
      (22, 21, product_in 22 2)]"
  by (simp add: cold_example_def no_args_def popular_candidates_def candidate_of_def
        List.map_filter_simps enumerate_simps product_in_simps py_or_def)

lemma category_of_popular_entry:
  "category_of (popular_entry i (product_in p c)) = c"
  by (simp add: category_of_def popular_entry_def product_in_simps opt_default_def)

lemma cold_example_output:
  "fst (get_recommendations clk cold_example) =
     [make_item 1 (popular_entry 0 (product_in 1 1)), make_item 2 (popular_entry 1 (product_in 2 1)),
      make_item 3 (popular_entry 2 (product_in 3 1)),
      make_item 22 (popular_entry 21 (product_in 22 2))]"
  by (subst cold_start_output)
     (simp_all add: cold_example_fields cold_example_candidates apply_diversity_first_pass
        initial_state_def category_of_popular_entry diversity_max_per_category_def
        add_category_def Let_def)

text \<open>
  C5, as stated, fails where the rank exceeds 20: the returned score is clamped to
  [0, 1]. With 22 popular products, the first 21 of one category, the product at rank 21
  is returned (the cap defers ranks 3 to 20) with score 0, not \<open>1 - 0.05 * 21\<close>.
\<close>

theorem cold_start_clamps_counterexample:
  "cold_start cold_example \<and>
   popular_products cold_example ! 21 = Some (product_in 22 2) \<and>
   map (\<lambda>it. (item_product_id it, item_score it)) (fst (get_recommendations (clock_at 0) cold_example))
     = [(1, 1), (2, 19 / 20), (3, 9 / 10), (22, 0)] \<and>
   (0 :: real) \<noteq> 1 - 5 / 100 * 21"
  by (simp add: cold_example_fields cold_example_output item_of_popular_entry)
     (simp add: cold_example_def)

text \<open>
  C5, amended. With no collaborative scores, no content-similar products and no
  purchased, wishlist or viewed ids, the strategy is "popular"; when the popular products
  that pass the exclusion guard have distinct ids, the table assigns the one at rank
  \<open>i\<close> the score \<open>1 - 0.05 i\<close>, and the returned (id, score) pairs are a
  subsequence, in popularity order, of those products' ids paired with the clamped score
  \<open>max 0 (1 - 0.05 i)\<close>.
\<close>

theorem cold_start_popular:
  assumes "cold_start a"
    and "distinct (map fst (popular_candidates (set (purchased_product_ids a))
            (set (negative_feedback_ids a)) (popular_products a)))"
  shows "fst (snd (get_recommendations clk a)) = ''popular'' \<and>
     map (\<lambda>(k, e). (k, entry_score e)) (build_scores clk a) =
       map (\<lambda>(k, i, p). (k, 1 - 5 / 100 * real i))
          (popular_candidates (set (purchased_product_ids a)) (set (negative_feedback_ids a))
             (popular_products a)) \<and>
     subseq (map (\<lambda>it. (item_product_id it, item_score it)) (fst (get_recommendations clk a)))
       (map (\<lambda>(k, i, p). (k, max 0 (1 - 5 / 100 * real i)))
          (popular_candidates (set (purchased_product_ids a)) (set (negative_feedback_ids a))
             (popular_products a)))"
proof -
  let ?C = "popular_candidates (set (purchased_product_ids a)) (set (negative_feedback_ids a))
             (popular_products a)"
  let ?L = "map (\<lambda>(k, i, p). (k, popular_entry i p)) ?C"
  let ?g = "\<lambda>it. (item_product_id it, item_score it)"
  let ?m = "\<lambda>(pid, data). make_item pid data"
  obtain ys where ys: "subseq ys ?L" and out: "apply_diversity ?L (limit a) = map ?m ys"
    using apply_diversity_subseq by blast
  have e: "map ?g (map ?m ?L) = map (\<lambda>(k, i, p). (k, max 0 (1 - 5 / 100 * real i))) ?C"
    using item_of_popular_entry by (simp add: case_prod_unfold comp_def)
  have "subseq (map ?g (map ?m ys)) (map ?g (map ?m ?L))"
    by (intro subseq_map ys)
  then have sub: "subseq (map ?g (map ?m ys))
      (map (\<lambda>(k, i, p). (k, max 0 (1 - 5 / 100 * real i))) ?C)"
    unfolding e .
  have o: "fst (get_recommendations clk a) = map ?m ys"
    by (simp only: cold_start_output [OF assms] out)
  have t: "map (\<lambda>(k, e). (k, entry_score e)) (build_scores clk a) =
      map (\<lambda>(k, i, p). (k, 1 - 5 / 100 * real i)) ?C"
    by (simp add: cold_start_table [OF assms] case_prod_unfold comp_def popular_entry_def)
  have "fst (snd (get_recommendations clk a)) = ''popular''"
    using assms(1) by (simp add: get_recommendations_def Let_def)
  with sub t show ?thesis unfolding o by blast
qed

theorem cold_start_popular_witness:
  "fst (snd (get_recommendations (clock_at 0) cold_example)) = ''popular'' \<and>
   map (\<lambda>(k, e). (k, entry_score e)) (build_scores (clock_at 0) cold_example) =
     map (\<lambda>(k, i, p). (k, 1 - 5 / 100 * real i))
        (popular_candidates {} {} (popular_products cold_example)) \<and>
   subseq (map (\<lambda>it. (item_product_id it, item_score it)) (fst (get_recommendations (clock_at 0) cold_example)))
     (map (\<lambda>(k, i, p). (k, max 0 (1 - 5 / 100 * real i)))
        (popular_candidates {} {} (popular_products cold_example)))"
  using cold_start_popular [of cold_example "clock_at 0"]
  by (simp add: cold_example_fields cold_example_candidates)

section \<open>The clock\<close>

text \<open>
  Two folds agree when their lists are related position by position and the loop bodies
  agree on related elements.
\<close>

lemma foldl_list_all2:
  "list_all2 R xs ys \<Longrightarrow> (\<And>s x y. R x y \<Longrightarrow> f s x = g s y) \<Longrightarrow> foldl f s xs = foldl g s ys"
  by (induction xs ys arbitrary: s rule: list_all2_induct) simp_all

lemma untimed_fields:
  "untimed p = untimed q \<Longrightarrow>
     category_id p = category_id q \<and> product_id p = product_id q \<and>
     product_price p = product_price q \<and> price p = price q"
proof -
  assume e: "untimed p = untimed q"
  have "category_id (untimed p) = category_id (untimed q)"
    "product_id (untimed p) = product_id (untimed q)"
    "product_price (untimed p) = product_price (untimed q)"
    "price (untimed p) = price (untimed q)"
    by (simp_all only: e)
  then show ?thesis by (simp add: untimed_def)
qed

lemma aged_alike_length: "aged_alike r1 r2 stamp xs ys \<Longrightarrow> length xs = length ys"
  unfolding aged_alike_def by (drule list_all2_lengthD) simp

lemma aged_alike_Nil: "aged_alike r1 r2 stamp xs ys \<Longrightarrow> xs = [] \<longleftrightarrow> ys = []"
  by (drule aged_alike_length) auto

lemma affinity_step_alike:
  "alike r1 r2 stamp ix jy \<Longrightarrow>
   affinity_step r1 stamp m h st ix = affinity_step r2 stamp m h st jy"
  by (auto simp: alike_def affinity_step_def Let_def dest!: untimed_fields split: option.splits)

lemma affinity_pass_alike:
  "aged_alike r1 r2 stamp xs ys \<Longrightarrow>
   affinity_pass r1 stamp m h xs st = affinity_pass r2 stamp m h ys st"
  unfolding affinity_pass_def aged_alike_def
  by (erule foldl_list_all2) (rule affinity_step_alike)

lemma wishlist_step_alike:
  "alike r1 r2 added_at ix jy \<Longrightarrow> wishlist_step r1 P N ps ix = wishlist_step r2 P N ps jy"
  by (auto simp: alike_def wishlist_step_def Let_def dest!: untimed_fields split: option.splits)

lemma wishlist_boost_alike:
  assumes "aged_alike r1 r2 added_at xs ys"
  shows "wishlist_boost r1 P N xs ids products ps = wishlist_boost r2 P N ys ids products ps"
proof -
  have "foldl (wishlist_step r1 P N) ps (enumerate 0 xs)
      = foldl (wishlist_step r2 P N) ps (enumerate 0 ys)"
    using assms unfolding aged_alike_def
    by (rule foldl_list_all2) (rule wishlist_step_alike)
  then show ?thesis
    using aged_alike_Nil [OF assms] by (simp add: wishlist_boost_def)
qed

lemma view_decay_step_alike:
  "alike r1 r2 view_stamp ix jy \<Longrightarrow>
   view_decay_step r1 P N nr vpd ix = view_decay_step r2 P N nr vpd jy"
  by (auto simp: alike_def view_decay_step_def Let_def dest!: untimed_fields
        split: option.splits cong: if_cong)

lemma viewed_boost_alike:
  assumes "aged_alike r1 r2 view_stamp xs ys"
  shows "viewed_boost r1 P N nr xs ids products ps = viewed_boost r2 P N nr ys ids products ps"
proof -
  have "viewed_products_decay r1 P N nr xs = viewed_products_decay r2 P N nr ys"
    using assms unfolding aged_alike_def viewed_products_decay_def
    by (rule foldl_list_all2) (rule view_decay_step_alike)
  then show ?thesis
    using aged_alike_Nil [OF assms] by (simp add: viewed_boost_def)
qed

lemma purchase_prices_alike_aux:
  "list_all2 (alike r1 r2 stamp) (enumerate n xs) (enumerate m ys) \<Longrightarrow>
   purchase_prices xs = purchase_prices ys"
proof (induction xs arbitrary: ys n m)
  case Nil
  then have "ys = []" by (cases ys) auto
  then show ?case by simp
next
  case (Cons x xs)
  then obtain y ys' where ys: "ys = y # ys'" by (cases ys) auto
  from Cons.prems have hd: "alike r1 r2 stamp (n, x) (m, y)"
    and tl: "list_all2 (alike r1 r2 stamp) (enumerate (Suc n) xs) (enumerate (Suc m) ys')"
    by (simp_all add: ys)
  from Cons.IH [OF tl] have ih: "purchase_prices xs = purchase_prices ys'" .
  from hd show ?case
    by (cases x; cases y) (auto simp: alike_def ys ih dest!: untimed_fields split: option.splits)
qed

lemma purchase_prices_alike:
  "aged_alike r1 r2 stamp xs ys \<Longrightarrow> purchase_prices xs = purchase_prices ys"
  unfolding aged_alike_def by (rule purchase_prices_alike_aux)

lemma calculate_price_preference_alike:
  "aged_alike r1 r2 stamp xs ys \<Longrightarrow>
   calculate_price_preference xs interactions = calculate_price_preference ys interactions"
  by (simp add: calculate_price_preference_def purchase_prices_alike [of r1 r2 stamp xs ys])

lemma calculate_category_affinity_alike:
  assumes "aged_alike (c1 AffinityPurchases) (c2 AffinityPurchases) purchase_stamp ps1 ps2"
    and "aged_alike (c1 AffinityWishlist) (c2 AffinityWishlist) added_at ws1 ws2"
    and "aged_alike (c1 AffinityViews) (c2 AffinityViews) view_stamp vs1 vs2"
  shows "calculate_category_affinity c1 ps1 vs1 ws1 interactions =
         calculate_category_affinity c2 ps2 vs2 ws2 interactions"
  unfolding calculate_category_affinity_def
  by (simp only: affinity_pass_alike [OF assms(1)] affinity_pass_alike [OF assms(2)]
        affinity_pass_alike [OF assms(3)])

text \<open>
  Product 5 has been on the wishlist since instant 0: it scores 0.4 when every reading of
  the clock is 0 and 0.2 when every reading is 14 days later.
\<close>

lemma clock_example_scores:
  "map (\<lambda>it. (item_product_id it, item_score it))
     (fst (get_recommendations (clock_at 0) clock_example)) = [(5, 2 / 5)]"
  "map (\<lambda>it. (item_product_id it, item_score it))
     (fst (get_recommendations (clock_at 1209600) clock_example)) = [(5, 1 / 5)]"
  by (simp_all add: clock_example_def no_args_def engine_defs empty_row_simps settings_defs
        diversity_max_per_category_def Let_def List.map_filter_simps enumerate_simps)

lemma wishlist_examples_aged_alike:
  "aged_alike (clock_at 1209600 site) (clock_at 2419200 site) added_at
     (wishlist clock_example) (wishlist later_example)"
  by (simp add: aged_alike_def alike_def clock_example_def later_example_def no_args_def
        enumerate_simps untimed_def get_days_ago_def clock_at_def)

lemma empty_aged_alike: "aged_alike r1 r2 stamp [] []"
  by (simp add: aged_alike_def)

text \<open>
  C6, as stated, fails: the same arguments, with product 5 on the wishlist since instant
  0, score that product 0.4 when the clock reads 0 and 0.2 when it reads 14 days later.
\<close>

theorem clock_changes_scores_counterexample:
  "map (\<lambda>it. (item_product_id it, item_score it))
     (fst (get_recommendations (clock_at 0) clock_example)) = [(5, 2 / 5)] \<and>
   map (\<lambda>it. (item_product_id it, item_score it))
     (fst (get_recommendations (clock_at 1209600) clock_example)) = [(5, 1 / 5)] \<and>
   get_recommendations (clock_at 0) clock_example
     \<noteq> get_recommendations (clock_at 1209600) clock_example"
proof -
  have "get_recommendations (clock_at 0) clock_example
      \<noteq> get_recommendations (clock_at 1209600) clock_example"
  proof
    assume "get_recommendations (clock_at 0) clock_example
      = get_recommendations (clock_at 1209600) clock_example"
    then have "map (\<lambda>it. (item_product_id it, item_score it))
        (fst (get_recommendations (clock_at 0) clock_example))
      = map (\<lambda>it. (item_product_id it, item_score it))
        (fst (get_recommendations (clock_at 1209600) clock_example))"
      by simp
    then show False by (simp add: clock_example_scores)
  qed
  then show ?thesis by (simp add: clock_example_scores)
qed

text \<open>
  C6, amended. The output depends on the readings of the clock and on the timestamps of
  the purchases, wishlist entries and views only through the elapsed days of each record
  at the reading taken for it. Two invocations, at any two clocks, whose arguments agree
  apart from the timestamps of these records, and in which each record has the same
  elapsed days in both invocations at each of the calls that age it, return identical
  results. The purchases are aged by the category affinity; the wishlist entries by the
  category affinity and the wishlist boost; the views by the category affinity and the
  view boost.
\<close>

theorem scoring_depends_on_clock_through_elapsed_days:
  assumes "aged_alike (c1 AffinityPurchases) (c2 AffinityPurchases) purchase_stamp ps1 ps2"
    and "aged_alike (c1 AffinityWishlist) (c2 AffinityWishlist) added_at ws1 ws2"
    and "aged_alike (c1 WishlistBoost) (c2 WishlistBoost) added_at ws1 ws2"
    and "aged_alike (c1 AffinityViews) (c2 AffinityViews) view_stamp vs1 vs2"
    and "aged_alike (c1 ViewBoost) (c2 ViewBoost) view_stamp vs1 vs2"
  shows "get_recommendations c1 (a\<lparr>purchases := ps1, wishlist := ws1, views := vs1\<rparr>) =
         get_recommendations c2 (a\<lparr>purchases := ps2, wishlist := ws2, views := vs2\<rparr>)"
proof -
  have cs: "cold_start (a\<lparr>purchases := ps1, wishlist := ws1, views := vs1\<rparr>) =
            cold_start (a\<lparr>purchases := ps2, wishlist := ws2, views := vs2\<rparr>)"
    by (simp add: cold_start_def)
  have al: "alpha_of (a\<lparr>purchases := ps1, wishlist := ws1, views := vs1\<rparr>) =
            alpha_of (a\<lparr>purchases := ps2, wishlist := ws2, views := vs2\<rparr>)"
    by (simp add: alpha_of_def Let_def split: option.splits)
  have ca: "calculate_category_affinity c1 ps1 vs1 ws1 (all_interactions a) =
            calculate_category_affinity c2 ps2 vs2 ws2 (all_interactions a)"
    by (rule calculate_category_affinity_alike [OF assms(1) assms(2) assms(4)])
  have pp: "calculate_price_preference ps1 (all_interactions a) =
            calculate_price_preference ps2 (all_interactions a)"
    by (rule calculate_price_preference_alike [OF assms(1)])
  have b: "build_scores c1 (a\<lparr>purchases := ps1, wishlist := ws1, views := vs1\<rparr>) =
           build_scores c2 (a\<lparr>purchases := ps2, wishlist := ws2, views := vs2\<rparr>)"
    unfolding build_scores_def Let_def
    using aged_alike_Nil [OF assms(1)] aged_alike_Nil [OF assms(2)] aged_alike_Nil [OF assms(4)]
    by (simp add: cs al ca pp wishlist_boost_alike [OF assms(3)] viewed_boost_alike [OF assms(5)]
          cong: if_cong)
  show ?thesis
    by (simp add: get_recommendations_def b cs al)
qed

text \<open>
  The wishlist entry of instant 0 read at 14 days and the entry of 14 days read at 28
  days are both 14 days old, and product 5 scores 0.2 in both invocations.
\<close>

theorem scoring_depends_on_clock_through_elapsed_days_witness:
  "get_recommendations (clock_at 1209600) clock_example
     = get_recommendations (clock_at 2419200) later_example \<and>
   map (\<lambda>it. (item_product_id it, item_score it))
     (fst (get_recommendations (clock_at 2419200) later_example)) = [(5, 1 / 5)]"
proof -
  have c: "clock_example = (no_args\<lparr>wishlist_ids := [5]\<rparr>)
      \<lparr>purchases := [], wishlist := wishlist clock_example, views := []\<rparr>"
    by (simp add: clock_example_def no_args_def)
  have l: "later_example = (no_args\<lparr>wishlist_ids := [5]\<rparr>)
      \<lparr>purchases := [], wishlist := wishlist later_example, views := []\<rparr>"
    by (simp add: later_example_def no_args_def)
  have "get_recommendations (clock_at 1209600)
          ((no_args\<lparr>wishlist_ids := [5]\<rparr>)
             \<lparr>purchases := [], wishlist := wishlist clock_example, views := []\<rparr>)
      = get_recommendations (clock_at 2419200)
          ((no_args\<lparr>wishlist_ids := [5]\<rparr>)
             \<lparr>purchases := [], wishlist := wishlist later_example, views := []\<rparr>)"
    by (rule scoring_depends_on_clock_through_elapsed_days)
       (rule empty_aged_alike wishlist_examples_aged_alike)+
  then have e: "get_recommendations (clock_at 1209600) clock_example
      = get_recommendations (clock_at 2419200) later_example"
    using c l by simp
  then show ?thesis using clock_example_scores(2) by simp
qed

end
